theory Spec2Isabelle
  imports Complex_Main "HOL-Library.Multiset"
begin

section \<open>Python string primitives used by the Diadochi sources\<close>

text \<open>
  Strings are byte lists. The sources only inspect ASCII structure (blanks, full stops,
  the letters of fixed indicator words), so \<open>str.lower\<close>, \<open>str.split\<close> and
  \<open>str.strip\<close> are modelled on the ASCII range; a non-ASCII code point is a run of
  bytes that none of these functions touches.
\<close>

definition is_space :: "char \<Rightarrow> bool" where
  "is_space c = (c \<in> set [CHR 0x20, CHR 0x09, CHR 0x0A, CHR 0x0B, CHR 0x0C, CHR 0x0D,
                           CHR 0x1C, CHR 0x1D, CHR 0x1E, CHR 0x1F])"

definition char_lower :: "char \<Rightarrow> char" where
  "char_lower c =
     (case map_of (zip ''ABCDEFGHIJKLMNOPQRSTUVWXYZ'' ''abcdefghijklmnopqrstuvwxyz'') c of
        None \<Rightarrow> c | Some d \<Rightarrow> d)"

definition str_lower :: "string \<Rightarrow> string" where
  "str_lower s = map char_lower s"

text \<open>\<open>s.split()\<close>: maximal runs of non-blank characters, in order.\<close>

fun split_acc :: "string \<Rightarrow> string \<Rightarrow> string list" where
  "split_acc cur [] = (if cur = [] then [] else [cur])"
| "split_acc cur (c # cs) =
     (if is_space c then (if cur = [] then split_acc [] cs else cur # split_acc [] cs)
      else split_acc (cur @ [c]) cs)"

definition str_split :: "string \<Rightarrow> string list" where
  "str_split s = split_acc [] s"

text \<open>\<open>s.strip()\<close>: drop blanks at both ends.\<close>

definition str_strip :: "string \<Rightarrow> string" where
  "str_strip s = rev (dropWhile is_space (rev (dropWhile is_space s)))"

text \<open>\<open>needle in hay\<close> on strings: \<open>needle\<close> occurs as a contiguous block.\<close>

fun starts_with :: "string \<Rightarrow> string \<Rightarrow> bool" where
  "starts_with s [] = True"
| "starts_with [] (p # ps) = False"
| "starts_with (c # cs) (p # ps) = (c = p \<and> starts_with cs ps)"

fun str_contains :: "string \<Rightarrow> string \<Rightarrow> bool" where
  "str_contains [] needle = (needle = [])"
| "str_contains (c # cs) needle = (starts_with (c # cs) needle \<or> str_contains cs needle)"

text \<open>\<open>sep.join(parts)\<close>.\<close>

fun str_join :: "string \<Rightarrow> string list \<Rightarrow> string" where
  "str_join sep [] = []"
| "str_join sep [p] = p"
| "str_join sep (p # q # ps) = p @ sep @ str_join sep (q # ps)"


section \<open>Orchestrator: query analysis and strategy selection (orchestrator.py)\<close>

datatype PipelineStrategy = AUTO | ENSEMBLE | MOE | CHAIN | HYBRID

datatype QueryComplexity = SIMPLE | MODERATE | COMPLEX | EXPERT

record PipelineConfig =
  strategy :: PipelineStrategy
  max_parallel_models :: int
  confidence_threshold :: real
  enable_explanation :: bool
  enable_metadata :: bool
  timeout_seconds :: real
  fallback_strategy :: "PipelineStrategy option"

text \<open>The dataclass defaults of \<open>PipelineConfig\<close>.\<close>

definition default_config :: PipelineConfig where
  "default_config =
     \<lparr> strategy = AUTO, max_parallel_models = 3, confidence_threshold = 7 / 10,
       enable_explanation = True, enable_metadata = True, timeout_seconds = 30,
       fallback_strategy = Some ENSEMBLE \<rparr>"

text \<open>The dictionary built by \<open>_analyze_query\<close>, one field per key.\<close>

record query_analysis =
  an_query :: string
  an_domain_context :: "string option"
  an_length :: nat
  an_complexity :: QueryComplexity
  an_domains :: "string list"
  an_keywords :: "string list"
  an_requires_expertise :: bool
  an_requires_synthesis :: bool
  an_confidence_requirements :: string

definition domain_indicators :: "string list" where
  "domain_indicators =
     [''compare'', ''versus'', ''and'', ''both'', ''multiple'', ''different'',
      ''integrate'', ''combine'', ''synthesis'', ''holistic'']"

definition expert_indicators :: "string list" where
  "expert_indicators =
     [''explain'', ''analyze'', ''detailed'', ''comprehensive'', ''in-depth'',
      ''research'', ''study'', ''investigation'', ''technical'']"

text \<open>\<open>any(indicator in query_lower for indicator in indicators)\<close>.\<close>

definition any_indicator :: "string list \<Rightarrow> string \<Rightarrow> bool" where
  "any_indicator indicators query_lower = list_ex (str_contains query_lower) indicators"

definition analyze_query :: "string \<Rightarrow> string option \<Rightarrow> query_analysis" where
  "analyze_query query domain_context =
     (let word_count = length (str_split query);
          c0 = (if word_count > 50 then COMPLEX
                else if word_count > 20 then MODERATE
                else SIMPLE);
          query_lower = str_lower query;
          synth = any_indicator domain_indicators query_lower;
          c1 = (if synth then COMPLEX else c0);
          expertise = any_indicator expert_indicators query_lower
      in \<lparr> an_query = query,
           an_domain_context = domain_context,
           an_length = length (str_split query),
           an_complexity = c1,
           an_domains = [],
           an_keywords = filter (\<lambda>word. length word > 3) (str_split query),
           an_requires_expertise = expertise,
           an_requires_synthesis = synth,
           an_confidence_requirements = ''medium'' \<rparr>)"

definition select_strategy :: "query_analysis \<Rightarrow> PipelineConfig \<Rightarrow> PipelineStrategy" where
  "select_strategy analysis config =
     (if strategy config \<noteq> AUTO then strategy config
      else if an_complexity analysis = SIMPLE \<and> \<not> an_requires_synthesis analysis then ENSEMBLE
      else if an_requires_synthesis analysis \<or> an_complexity analysis = COMPLEX then MOE
      else if an_requires_expertise analysis
              \<and> an_complexity analysis \<in> set [MODERATE, COMPLEX] then CHAIN
      else if an_complexity analysis = EXPERT then HYBRID
      else ENSEMBLE)"



section \<open>Python container primitives\<close>

text \<open>
  Exceptions are values. Only the class and the message matter to the sources modelled
  here; \<open>TimeoutError\<close> stands for \<open>asyncio.TimeoutError\<close>.
\<close>

datatype py_error =
    ValueError string
  | KeyError string
  | ImportError string
  | RuntimeError string
  | TimeoutError
  | OtherError string

text \<open>
  A \<open>dict\<close> is an association list with distinct keys in insertion order: storing under
  an existing key keeps the key's position, storing under a new key appends.
\<close>

fun dict_set :: "'k \<Rightarrow> 'v \<Rightarrow> ('k \<times> 'v) list \<Rightarrow> ('k \<times> 'v) list" where
  "dict_set k v [] = [(k, v)]"
| "dict_set k v ((k', v') # kvs) =
     (if k' = k then (k, v) # kvs else (k', v') # dict_set k v kvs)"

text \<open>\<open>d.get(k, default)\<close>.\<close>

definition dict_get :: "('k \<times> 'v) list \<Rightarrow> 'k \<Rightarrow> 'v \<Rightarrow> 'v" where
  "dict_get d k dflt = (case map_of d k of None \<Rightarrow> dflt | Some v \<Rightarrow> v)"

text \<open>\<open>xs[:k]\<close> for an integer \<open>k\<close>: a negative bound counts from the end.\<close>

definition py_take :: "int \<Rightarrow> 'a list \<Rightarrow> 'a list" where
  "py_take k xs = (if 0 \<le> k then take (nat k) xs else take (nat (int (length xs) + k)) xs)"

text \<open>\<open>max(x0 :: xs, key=key)\<close>: the first element whose key is maximal.\<close>

definition py_max_by :: "('a \<Rightarrow> real) \<Rightarrow> 'a \<Rightarrow> 'a list \<Rightarrow> 'a" where
  "py_max_by key x0 xs = fold (\<lambda>x best. if key best < key x then x else best) xs x0"

text \<open>
  \<open>sorted(xs, key=key, reverse=True)\<close>: descending and stable (equal keys keep their
  original order), which is the stable ascending sort on the negated key.
\<close>

definition sorted_desc :: "('a \<Rightarrow> real) \<Rightarrow> 'a list \<Rightarrow> 'a list" where
  "sorted_desc key xs = sort_key (\<lambda>x. - key x) xs"

text \<open>\<open>s.split(sep)\<close> for a one-character separator: empty pieces are kept.\<close>

fun split_on_acc :: "char \<Rightarrow> string \<Rightarrow> string \<Rightarrow> string list" where
  "split_on_acc sep cur [] = [cur]"
| "split_on_acc sep cur (c # cs) =
     (if c = sep then cur # split_on_acc sep [] cs else split_on_acc sep (cur @ [c]) cs)"

definition str_split_on :: "char \<Rightarrow> string \<Rightarrow> string list" where
  "str_split_on sep s = split_on_acc sep [] s"

definition newline :: string where
  "newline = [CHR 0x0A]"


section \<open>Model registry (core/registry.py, core/models.py)\<close>

record ModelConfig =
  mc_name :: string
  mc_engine :: string
  mc_model_name :: string
  mc_api_key :: "string option"
  mc_base_url :: "string option"
  mc_temperature :: real
  mc_max_tokens :: int
  mc_timeout :: int
  mc_extra_params :: "(string \<times> string) list"

text \<open>A model object is the class that \<open>create_model\<close> picked and the configuration it holds.\<close>

datatype Model =
    OllamaModel ModelConfig
  | OpenAIModel ModelConfig
  | AnthropicModel ModelConfig
  | HuggingFaceModel ModelConfig

text \<open>
  \<open>create_model\<close>: an engine outside the table raises \<open>ValueError\<close>; a constructor raises
  when its client package cannot be loaded, which is a fact of the installation and is the
  parameter \<open>loadable\<close>.
\<close>

definition create_model :: "(string \<Rightarrow> bool) \<Rightarrow> ModelConfig \<Rightarrow> py_error + Model" where
  "create_model loadable config =
     (case map_of [(''ollama'', OllamaModel), (''openai'', OpenAIModel),
                   (''anthropic'', AnthropicModel), (''huggingface'', HuggingFaceModel)]
                  (mc_engine config) of
        None \<Rightarrow> Inl (ValueError (''Unsupported engine: '' @ mc_engine config))
      | Some cls \<Rightarrow>
          (if loadable (mc_engine config) then Inr (cls config)
           else Inl (ImportError (mc_engine config))))"

record ModelRegistry =
  models :: "(string \<times> Model) list"
  configs :: "(string \<times> ModelConfig) list"

definition empty_registry :: ModelRegistry where
  "empty_registry = \<lparr> models = [], configs = [] \<rparr>"

text \<open>
  \<open>add_model\<close>. An existing name only produces a log line ("already exists,
  replacing..."); the model is then built and stored under the name. When the factory
  raises, the exception is re-raised and nothing has been stored.
\<close>

definition add_model ::
  "(string \<Rightarrow> bool) \<Rightarrow> ModelRegistry \<Rightarrow> string \<Rightarrow> string \<Rightarrow> string \<Rightarrow> string option \<Rightarrow>
   string option \<Rightarrow> real \<Rightarrow> int \<Rightarrow> int \<Rightarrow> (string \<times> string) list \<Rightarrow> py_error + ModelRegistry" where
  "add_model loadable reg name engine model_name api_key base_url temperature max_tokens
     timeout kwargs =
     (let config = \<lparr> mc_name = name, mc_engine = engine, mc_model_name = model_name,
                      mc_api_key = api_key, mc_base_url = base_url,
                      mc_temperature = temperature, mc_max_tokens = max_tokens,
                      mc_timeout = timeout, mc_extra_params = kwargs \<rparr>
      in case create_model loadable config of
           Inl e \<Rightarrow> Inl e
         | Inr model \<Rightarrow>
             Inr \<lparr> models = dict_set name model (models reg),
                   configs = dict_set name config (configs reg) \<rparr>)"

text \<open>\<open>add_model\<close> with the default arguments of the source.\<close>

definition add_model_default ::
  "(string \<Rightarrow> bool) \<Rightarrow> ModelRegistry \<Rightarrow> string \<Rightarrow> string \<Rightarrow> string \<Rightarrow> py_error + ModelRegistry" where
  "add_model_default loadable reg name engine model_name =
     add_model loadable reg name engine model_name None None (7 / 10) 1000 30 []"

text \<open>\<open>registry.get\<close>: a missing name raises \<open>KeyError\<close>.\<close>

definition registry_get :: "ModelRegistry \<Rightarrow> string \<Rightarrow> py_error + Model" where
  "registry_get reg name =
     (case map_of (models reg) name of
        None \<Rightarrow> Inl (KeyError (''Model '' @ name @ '' not found in registry''))
      | Some m \<Rightarrow> Inr m)"

text \<open>A registry holding one OpenAI model under the name "physio".\<close>

definition physio_config :: ModelConfig where
  "physio_config =
     \<lparr> mc_name = ''physio'', mc_engine = ''openai'', mc_model_name = ''gpt-4'',
       mc_api_key = None, mc_base_url = None, mc_temperature = 7 / 10,
       mc_max_tokens = 1000, mc_timeout = 30, mc_extra_params = [] \<rparr>"

definition physio_registry :: ModelRegistry where
  "physio_registry =
     \<lparr> models = [(''physio'', OpenAIModel physio_config)],
       configs = [(''physio'', physio_config)] \<rparr>"


section \<open>Embedding router (core/routers.py)\<close>







text \<open>The maximum of a non-empty list, as \<open>np.max\<close>.\<close>

definition list_max :: "real list \<Rightarrow> real" where
  "list_max xs = fold max (tl xs) (hd xs)"

text \<open>
  The softmax of \<open>route_multiple\<close>: divide by the temperature unless it is 1, shift by the
  maximum, exponentiate, divide by the sum.
\<close>

definition softmax_scores :: "real \<Rightarrow> real list \<Rightarrow> real list" where
  "softmax_scores temperature vals =
     (let score_values = (if temperature \<noteq> 1 then map (\<lambda>v. v / temperature) vals else vals);
          exp_scores = map (\<lambda>v. exp (v - list_max score_values)) score_values
      in map (\<lambda>e. e / sum_list exp_scores) exp_scores)"






text \<open>The \<open>config\<close> attribute every model object carries.\<close>

fun model_config :: "Model \<Rightarrow> ModelConfig" where
  "model_config (OllamaModel c) = c"
| "model_config (OpenAIModel c) = c"
| "model_config (AnthropicModel c) = c"
| "model_config (HuggingFaceModel c) = c"


section \<open>Mixers (core/mixers.py)\<close>

text \<open>
  \<open>responses\<close> is a dictionary from source names to response texts; \<open>weights\<close> is an
  optional dictionary from source names to weights. Python's test \<open>if weights\<close> holds for
  a dictionary that is present and not empty.
\<close>

definition weights_given :: "(string \<times> real) list option \<Rightarrow> bool" where
  "weights_given weights = (case weights of None \<Rightarrow> False | Some w \<Rightarrow> w \<noteq> [])"

definition weights_dict :: "(string \<times> real) list option \<Rightarrow> (string \<times> real) list" where
  "weights_dict weights = (case weights of None \<Rightarrow> [] | Some w \<Rightarrow> w)"

text \<open>\<open>next(iter(responses.values()))\<close> on a dictionary known to be non-empty.\<close>

definition first_value :: "(string \<times> string) list \<Rightarrow> string" where
  "first_value responses = (case responses of [] \<Rightarrow> [] | (source, response) # rest \<Rightarrow> response)"

subsection \<open>DefaultMixer\<close>

definition default_mix ::
  "string \<Rightarrow> (string \<times> string) list \<Rightarrow> (string \<times> real) list option \<Rightarrow> string" where
  "default_mix query responses weights =
     (if responses = [] then ''''
      else if \<not> weights_given weights then first_value responses
      else let w = weights_dict weights;
               best_source = py_max_by (\<lambda>k. dict_get w k 0) (hd (map fst w)) (tl (map fst w))
           in case map_of responses best_source of
                Some response \<Rightarrow> response
              | None \<Rightarrow> first_value responses)"

subsection \<open>ConcatenationMixer\<close>

record ConcatenationMixer =
  cm_include_weights :: bool
  cm_separator :: string

definition default_concatenation_mixer :: ConcatenationMixer where
  "default_concatenation_mixer =
     \<lparr> cm_include_weights = True, cm_separator = newline @ newline \<rparr>"

text \<open>
  The sources of a response dictionary in the order the mixers visit them: by descending
  weight when weights are given, in dictionary order otherwise. The entries are sorted
  with their texts, which is the same as sorting the keys and looking each text up.
\<close>

definition sorted_sources ::
  "(string \<times> string) list \<Rightarrow> (string \<times> real) list option \<Rightarrow> (string \<times> string) list" where
  "sorted_sources responses weights =
     (if weights_given weights
      then sorted_desc (\<lambda>(source, response). dict_get (weights_dict weights) source 0) responses
      else responses)"

text \<open>
  \<open>ConcatenationMixer.mix\<close>. There is no branch for a single response: every response
  gets its header line. The parameter \<open>percent\<close> is the float formatting \<open>:.1%\<close>.
\<close>

definition concatenation_mix ::
  "(real \<Rightarrow> string) \<Rightarrow> ConcatenationMixer \<Rightarrow> string \<Rightarrow> (string \<times> string) list \<Rightarrow>
   (string \<times> real) list option \<Rightarrow> string" where
  "concatenation_mix percent cm query responses weights =
     (if responses = [] then ''''
      else str_join (cm_separator cm)
             (map (\<lambda>(source, response).
                     (case (if cm_include_weights cm \<and> weights_given weights
                            then map_of (weights_dict weights) source else None) of
                        Some w \<Rightarrow> ''['' @ source @ '' ('' @ percent w @ '')]:''
                      | None \<Rightarrow> ''['' @ source @ '']:'')
                     @ newline @ response)
                  (sorted_sources responses weights)))"

subsection \<open>SynthesisMixer\<close>

text \<open>
  The synthesis model is an external expert: a function from the prompt to its answer or
  to the exception it raises. \<open>sm_prompt_template\<close> is the effect of
  \<open>prompt_template.format(query=..., weighted_responses=...)\<close>, which raises for a
  template with an unknown placeholder.
\<close>

record SynthesisMixer =
  sm_synthesis_model :: "string \<Rightarrow> py_error + string"
  sm_prompt_template :: "string \<Rightarrow> string \<Rightarrow> py_error + string"
  sm_max_input_length :: "int option"

definition default_prompt_template :: "string \<Rightarrow> string \<Rightarrow> py_error + string" where
  "default_prompt_template query weighted_responses =
     Inr (str_join newline
       ['''',
        ''You are tasked with synthesizing responses from multiple domain experts into a coherent, integrated response.'',
        '''',
        ''Original query: '' @ query,
        '''',
        ''Expert responses:'',
        weighted_responses,
        '''',
        ''Create a unified response that:'',
        ''1. Integrates insights from all relevant experts'',
        ''2. Resolves any contradictions or conflicts'',
        ''3. Provides a coherent narrative'',
        ''4. Gives appropriate weight to each domain based on relevance'',
        ''5. Directly addresses the original query'',
        '''',
        ''Synthesized response:'',
        ''''])"

definition format_weighted_responses ::
  "(real \<Rightarrow> string) \<Rightarrow> (string \<times> string) list \<Rightarrow> (string \<times> real) list option \<Rightarrow> string" where
  "format_weighted_responses percent responses weights =
     str_join (newline @ newline)
       (map (\<lambda>(source, response).
               (case (if weights_given weights
                      then map_of (weights_dict weights) source else None) of
                  Some w \<Rightarrow> ''['' @ source @ '' - Confidence: '' @ percent w @ '']''
                | None \<Rightarrow> ''['' @ source @ '']'')
               @ newline @ response)
            (sorted_sources responses weights))"

definition truncate_responses :: "string \<Rightarrow> int \<Rightarrow> string" where
  "truncate_responses formatted_responses max_length =
     (if int (length formatted_responses) \<le> max_length then formatted_responses
      else py_take (max_length - 10) formatted_responses @ newline @ newline @ ''[...]'')"

text \<open>
  \<open>SynthesisMixer.mix\<close>. The result is the mixed text together with the prompts sent to
  the synthesis model during the call, in order. Any exception in the synthesis branch
  falls back to a \<open>ConcatenationMixer()\<close>.
\<close>

definition synthesis_mix ::
  "(real \<Rightarrow> string) \<Rightarrow> SynthesisMixer \<Rightarrow> string \<Rightarrow> (string \<times> string) list \<Rightarrow>
   (string \<times> real) list option \<Rightarrow> string \<times> string list" where
  "synthesis_mix percent sm query responses weights =
     (if responses = [] then ('''', [])
      else if length responses = 1 then (first_value responses, [])
      else let formatted = format_weighted_responses percent responses weights;
               weighted_responses =
                 (case sm_max_input_length sm of
                    None \<Rightarrow> formatted
                  | Some n \<Rightarrow> if n = 0 then formatted else truncate_responses formatted n);
               fallback = concatenation_mix percent default_concatenation_mixer query responses weights
           in case sm_prompt_template sm query weighted_responses of
                Inl e \<Rightarrow> (fallback, [])
              | Inr prompt \<Rightarrow>
                  (case sm_synthesis_model sm prompt of
                     Inl e \<Rightarrow> (fallback, [prompt])
                   | Inr synthesis \<Rightarrow> (str_strip synthesis, [prompt])))"

subsection \<open>WeightedMixer\<close>

record WeightedMixer =
  wm_combination_method :: string
  wm_segment_length :: int
  wm_overlap_penalty :: real

text \<open>
  \<open>WeightedMixer.mix\<close>: the two early returns, the default and the normalisation of the
  weights, and the dispatch on the combination method. The three private combination
  routines (segment, sentence and paragraph selection with their overlap tests) are the
  parameter \<open>combination\<close>, applied to the method name, the responses and the normalised
  weights; they are entered only with at least two responses.
\<close>

definition weighted_mix ::
  "(string \<Rightarrow> (string \<times> string) list \<Rightarrow> (string \<times> real) list \<Rightarrow> string) \<Rightarrow> WeightedMixer \<Rightarrow>
   string \<Rightarrow> (string \<times> string) list \<Rightarrow> (string \<times> real) list option \<Rightarrow> py_error + string" where
  "weighted_mix combination wm query responses weights =
     (if responses = [] then Inr ''''
      else if length responses = 1 then Inr (first_value responses)
      else let w0 = (if weights_given weights then weights_dict weights
                     else map (\<lambda>(source, response). (source, 1 / real (length responses)))
                            responses);
               total_weight = sum_list (map snd w0);
               w1 = (if 0 < total_weight then map (\<lambda>(k, v). (k, v / total_weight)) w0 else w0)
           in if wm_combination_method wm
                   \<in> set [''weighted_segments'', ''sentence_selection'', ''paragraph_blend'']
              then Inr (combination (wm_combination_method wm) responses w1)
              else Inl (ValueError (''Unknown combination method: '' @ wm_combination_method wm)))"

subsection \<open>ConsensusBasedMixer\<close>

record ConsensusBasedMixer =
  cb_consensus_threshold :: real
  cb_conflict_resolution :: string


definition extract_key_points :: "string \<Rightarrow> string list" where
  "extract_key_points response =
     take 5 (filter (\<lambda>s. 20 < length s)
               (filter (\<lambda>s. s \<noteq> []) (map str_strip (str_split_on (CHR ''.'') response))))"

text \<open>\<open>_points_similar\<close> with its default threshold 0.5: Jaccard similarity of the word sets.\<close>

definition points_similar :: "string \<Rightarrow> string \<Rightarrow> bool" where
  "points_similar point1 point2 =
     (if point1 = [] \<or> point2 = [] then False
      else let words1 = remdups (str_split (str_lower point1));
               words2 = remdups (str_split (str_lower point2))
           in if words1 = [] \<or> words2 = [] then False
              else let inter_size = length (filter (\<lambda>w. w \<in> set words2) words1);
                       union_size = length (remdups (words1 @ words2));
                       similarity = (if 0 < union_size then real inter_size / real union_size else 0)
                   in 1 / 2 \<le> similarity)"

text \<open>A key point with the expert it comes from and that expert's weight.\<close>

type_synonym weighted_point = "string \<times> string \<times> real"

definition all_points ::
  "(string \<times> string list) list \<Rightarrow> (string \<times> real) list \<Rightarrow> weighted_point list" where
  "all_points key_points weights =
     concat (map (\<lambda>(source, points).
                    map (\<lambda>point. (point, source, dict_get weights source 1)) points)
                 key_points)"

text \<open>
  The test of \<open>_find_consensus\<close> on a finished group:
  \<open>len(group) >= len(key_points) * self.consensus_threshold\<close>. The left side counts the
  points in the group.
\<close>

definition is_consensus_group :: "real \<Rightarrow> nat \<Rightarrow> weighted_point list \<Rightarrow> bool" where
  "is_consensus_group threshold num_experts grp =
     (real num_experts * threshold \<le> real (length grp))"

text \<open>\<open>max(group, key=lambda x: x[2])[0]\<close>: the text of the first point of maximal weight.\<close>

definition best_point :: "weighted_point list \<Rightarrow> string" where
  "best_point grp = fst (py_max_by (\<lambda>(point, source, weight). weight) (hd grp) (tl grp))"

text \<open>
  The inner loop of \<open>_find_consensus\<close>: the later points, with their indices, that are
  not used yet and are similar to the first point of the group join the group and are
  marked used.
\<close>

fun group_loop ::
  "string \<Rightarrow> (nat \<times> weighted_point) list \<Rightarrow> nat list \<Rightarrow> weighted_point list \<Rightarrow>
   weighted_point list \<times> nat list" where
  "group_loop point1 [] used grp = (grp, used)"
| "group_loop point1 ((j, p) # rest) used grp =
     (if j \<in> set used then group_loop point1 rest used grp
      else if points_similar point1 (fst p)
           then group_loop point1 rest (used @ [j]) (grp @ [p])
           else group_loop point1 rest used grp)"

text \<open>The outer loop, accumulating the consensus points.\<close>

fun consensus_loop ::
  "real \<Rightarrow> nat \<Rightarrow> (nat \<times> weighted_point) list \<Rightarrow> nat list \<Rightarrow> string list \<Rightarrow> string list" where
  "consensus_loop threshold n [] used consensus_points = consensus_points"
| "consensus_loop threshold n ((i, p) # rest) used consensus_points =
     (if i \<in> set used then consensus_loop threshold n rest used consensus_points
      else case group_loop (fst p) rest (used @ [i]) [p] of
             (grp, used') \<Rightarrow>
               consensus_loop threshold n rest used'
                 (if is_consensus_group threshold n grp
                  then consensus_points @ [best_point grp] else consensus_points))"

definition find_consensus ::
  "ConsensusBasedMixer \<Rightarrow> (string \<times> string list) list \<Rightarrow> (string \<times> real) list \<Rightarrow> string list" where
  "find_consensus cb key_points weights =
     consensus_loop (cb_consensus_threshold cb) (length key_points)
       (enumerate 0 (all_points key_points weights)) [] []"




definition resolve_conflicts ::
  "ConsensusBasedMixer \<Rightarrow> (string \<times> string list) list \<Rightarrow> (string \<times> real) list \<Rightarrow> string list" where
  "resolve_conflicts cb key_points weights =
     (if cb_conflict_resolution cb = ''weight_based''
      then concat (map (\<lambda>(source, weight).
                          case map_of key_points source of
                            Some points \<Rightarrow> take 2 points
                          | None \<Rightarrow> [])
                       (take 2 (sorted_desc snd weights)))
      else [])"

definition bullet :: string where
  "bullet = [CHR 0xE2, CHR 0x80, CHR 0xA2, CHR 0x20]"

definition build_unified_response :: "string list \<Rightarrow> string list \<Rightarrow> string \<Rightarrow> string" where
  "build_unified_response consensus_points conflict_resolutions query =
     (let parts1 = (if consensus_points \<noteq> []
                    then ''Based on expert consensus:'' # map (\<lambda>p. bullet @ p) consensus_points
                    else []);
          parts2 = (if conflict_resolutions \<noteq> []
                    then (if parts1 \<noteq> [] then newline @ ''Additional considerations:''
                          else ''Key insights:'')
                         # map (\<lambda>p. bullet @ p) conflict_resolutions
                    else [])
      in if parts1 @ parts2 \<noteq> [] then str_join newline (parts1 @ parts2)
         else ''No clear consensus found among expert responses.'')"

definition consensus_mix ::
  "ConsensusBasedMixer \<Rightarrow> string \<Rightarrow> (string \<times> string) list \<Rightarrow> (string \<times> real) list option \<Rightarrow> string" where
  "consensus_mix cb query responses weights =
     (if responses = [] then ''''
      else if length responses = 1 then first_value responses
      else let key_points = map (\<lambda>(source, response). (source, extract_key_points response))
                              responses
           in build_unified_response
                (find_consensus cb key_points (weights_dict weights))
                (resolve_conflicts cb key_points (weights_dict weights))
                query)"




section \<open>Chains (core/chains.py)\<close>

text \<open>Decimal printing of integers, as \<open>str(n)\<close> and the \<open>{n}\<close> of an f-string do.\<close>

definition digit_char :: "nat \<Rightarrow> char" where
  "digit_char d = (''0123456789'' ! (d mod 10))"

function string_of_nat :: "nat \<Rightarrow> string" where
  "string_of_nat n =
     (if n < 10 then [digit_char n] else string_of_nat (n div 10) @ [digit_char (n mod 10)])"
  by pat_completeness auto
termination
  by (relation "measure id") auto

declare string_of_nat.simps [simp del]

definition string_of_int :: "int \<Rightarrow> string" where
  "string_of_int i = (if i < 0 then ''-'' @ string_of_nat (nat (- i)) else string_of_nat (nat i))"

text \<open>\<open>str(e)\<close> for the exceptions of the model; a \<open>KeyError\<close> prints its key quoted.\<close>

fun error_text :: "py_error \<Rightarrow> string" where
  "error_text (ValueError m) = m"
| "error_text (KeyError m) = [CHR 0x27] @ m @ [CHR 0x27]"
| "error_text (ImportError m) = m"
| "error_text (RuntimeError m) = m"
| "error_text TimeoutError = ''''"
| "error_text (OtherError m) = m"

text \<open>
  An entry of a chain's model list: a bare name (a \<open>str\<close>, which the chains skip) or an
  expert object, given by its \<open>name\<close> attribute if it has one and by its \<open>generate\<close>,
  a function from the prompt to the answer or to the exception raised.
\<close>

datatype chain_model =
    NameOnly string
  | Expert "string option" "string \<Rightarrow> py_error + string"

text \<open>Values stored in \<open>ChainContext.metadata\<close>: response texts and the flag \<open>True\<close>.\<close>

datatype meta_value = MText string | MFlag bool

record ChainContext =
  cc_query :: string
  cc_responses :: "string list"
  cc_metadata :: "(string \<times> meta_value) list"

definition add_response :: "ChainContext \<Rightarrow> string \<Rightarrow> string \<Rightarrow> ChainContext" where
  "add_response context response model_name =
     context \<lparr> cc_responses := cc_responses context @ [response],
               cc_metadata :=
                 dict_set model_name (MText response)
                   (dict_set (''response_'' @ string_of_nat (length (cc_responses context)))
                      (MText response) (cc_metadata context)) \<rparr>"

definition get_previous_response :: "ChainContext \<Rightarrow> string option" where
  "get_previous_response context =
     (if cc_responses context = [] then None else Some (last (cc_responses context)))"

text \<open>
  A prompt template is a sequence of literal text and \<open>{name}\<close> placeholders;
  \<open>template.format(**args)\<close> raises \<open>KeyError\<close> at the first placeholder without an
  argument.
\<close>

datatype piece = Lit string | Field string

fun format_template :: "piece list \<Rightarrow> (string \<Rightarrow> string option) \<Rightarrow> py_error + string" where
  "format_template [] args = Inr ''''"
| "format_template (Lit s # ps) args =
     (case format_template ps args of Inl e \<Rightarrow> Inl e | Inr rest \<Rightarrow> Inr (s @ rest))"
| "format_template (Field f # ps) args =
     (case args f of
        None \<Rightarrow> Inl (KeyError f)
      | Some v \<Rightarrow>
          (case format_template ps args of Inl e \<Rightarrow> Inl e | Inr rest \<Rightarrow> Inr (v @ rest)))"

definition template_first :: "piece list" where
  "template_first = [Field ''query'']"

definition template_middle :: "piece list" where
  "template_middle =
     [Lit ''Previous analysis: '', Field ''prev_response'',
      Lit (newline @ newline @ ''Original query: ''), Field ''query'',
      Lit (newline @ newline @ ''Provide your additional insights and analysis.'')]"

definition template_last :: "piece list" where
  "template_last =
     [Lit (''Previous analyses:'' @ newline), Field ''all_responses'',
      Lit (newline @ newline @ ''Original query: ''), Field ''query'',
      Lit (newline @ newline
           @ ''Synthesize the above analyses into a comprehensive, integrated response.'')]"

text \<open>\<open>_format_all_responses\<close>: the responses numbered from 1.\<close>

definition format_all_responses :: "ChainContext \<Rightarrow> string" where
  "format_all_responses context =
     (if cc_responses context = [] then ''None''
      else str_join (newline @ newline)
             (map (\<lambda>(i, response). ''Analysis '' @ string_of_nat (i + 1) @ '':'' @ newline @ response)
                  (enumerate 0 (cc_responses context))))"

text \<open>
  The keyword arguments of the \<open>format\<close> call in \<open>_format_prompt\<close>. The metadata entries
  come last in the dictionary display and so override the four fixed keys. The parameter
  \<open>show_list\<close> is Python's printing of a list of strings (for \<open>{responses}\<close>).
\<close>

definition show_meta :: "meta_value \<Rightarrow> string" where
  "show_meta v = (case v of MText s \<Rightarrow> s | MFlag b \<Rightarrow> (if b then ''True'' else ''False''))"

definition format_args ::
  "(string list \<Rightarrow> string) \<Rightarrow> ChainContext \<Rightarrow> string \<Rightarrow> string option" where
  "format_args show_list context key =
     (case map_of (cc_metadata context) key of
        Some v \<Rightarrow> Some (show_meta v)
      | None \<Rightarrow>
          map_of [(''query'', cc_query context),
                  (''prev_response'',
                     (case get_previous_response context of None \<Rightarrow> '''' | Some r \<Rightarrow> r)),
                  (''responses'', show_list (cc_responses context)),
                  (''all_responses'', format_all_responses context)] key)"

record SummarizingChain =
  sc_models :: "chain_model list"
  sc_prompt_templates :: "(string \<times> piece list) list"
  sc_stop_on_error :: bool
  sc_summarizer :: "(string \<Rightarrow> py_error + string) option"
  sc_summary_threshold :: int
  sc_summary_target_length :: int

text \<open>\<open>Chain._format_prompt\<close>, inherited by the summarizing chain.\<close>

definition format_prompt ::
  "(string list \<Rightarrow> string) \<Rightarrow> SummarizingChain \<Rightarrow> ChainContext \<Rightarrow> string \<Rightarrow> nat \<Rightarrow> nat \<Rightarrow> string" where
  "format_prompt show_list ch context model_name step total_steps =
     (let template =
            (case map_of (sc_prompt_templates ch) model_name of
               Some t \<Rightarrow> t
             | None \<Rightarrow>
                 (if step = 0 then template_first
                  else if int step = int total_steps - 1 then template_last
                  else template_middle))
      in case format_template template (format_args show_list context) of
           Inr prompt \<Rightarrow> prompt
         | Inl e \<Rightarrow>
             (case get_previous_response context of
                Some prev \<Rightarrow> ''Previous: '' @ prev @ newline @ ''Query: '' @ cc_query context
              | None \<Rightarrow> cc_query context))"

text \<open>\<open>_should_summarize\<close>: the total length of the responses is above the threshold.\<close>

definition should_summarize :: "SummarizingChain \<Rightarrow> ChainContext \<Rightarrow> bool" where
  "should_summarize ch context =
     (if cc_responses context = [] then False
      else sc_summary_threshold ch < int (sum_list (map length (cc_responses context))))"

text \<open>
  The summarizer that \<open>_summarize_context\<close> uses: the configured one, otherwise the
  \<open>generate\<close> of the last entry of the model list that is not a bare name.
\<close>

fun last_expert :: "chain_model list \<Rightarrow> (string \<Rightarrow> py_error + string) option" where
  "last_expert [] = None"
| "last_expert (NameOnly n # ms) = last_expert ms"
| "last_expert (Expert n g # ms) =
     (case last_expert ms of None \<Rightarrow> Some g | Some g' \<Rightarrow> Some g')"

definition chosen_summarizer :: "SummarizingChain \<Rightarrow> (string \<Rightarrow> py_error + string) option" where
  "chosen_summarizer ch =
     (case sc_summarizer ch of Some s \<Rightarrow> Some s | None \<Rightarrow> last_expert (sc_models ch))"

definition summary_prompt :: "SummarizingChain \<Rightarrow> ChainContext \<Rightarrow> string" where
  "summary_prompt ch context =
     newline
     @ ''Summarize the following analysis concisely while preserving all key insights and important details:''
     @ newline @ newline @ format_all_responses context @ newline @ newline
     @ ''Summary (target length: ~'' @ string_of_int (sc_summary_target_length ch)
     @ '' characters):'' @ newline"

text \<open>
  What a chain run does to the outside: the prompts it sends, in order, to the experts
  of its steps and to the summarizer.
\<close>

datatype chain_event = StepCall nat string | SummaryCall string

type_synonym chain_state = "ChainContext \<times> chain_event list"

text \<open>
  \<open>_summarize_context\<close>. A summarizer that answers replaces the whole context by its
  summary. A summarizer that raises is logged and the context stays as it was ("Don't
  fail the chain, just continue without summarization").
\<close>

definition summarize_context :: "SummarizingChain \<Rightarrow> chain_state \<Rightarrow> chain_state" where
  "summarize_context ch st =
     (case st of (context, calls) \<Rightarrow>
        if cc_responses context = [] then (context, calls)
        else case chosen_summarizer ch of
               None \<Rightarrow> (context, calls)
             | Some summarizer \<Rightarrow>
                 (case summarizer (summary_prompt ch context) of
                    Inl e \<Rightarrow> (context, calls @ [SummaryCall (summary_prompt ch context)])
                  | Inr summary \<Rightarrow>
                      (context \<lparr> cc_responses := [summary],
                                 cc_metadata := [(''query'', MText (cc_query context)),
                                                 (''summarized'', MFlag True),
                                                 (''response_0'', MText summary)] \<rparr>,
                       calls @ [SummaryCall (summary_prompt ch context)])))"

text \<open>The name of the expert at position \<open>i\<close>: \<open>getattr(model, 'name', f'model_{i}')\<close>.\<close>

definition expert_name :: "string option \<Rightarrow> nat \<Rightarrow> string" where
  "expert_name n i = (case n of Some s \<Rightarrow> s | None \<Rightarrow> ''model_'' @ string_of_nat i)"

text \<open>
  The context and the prompt with which step \<open>i\<close> of the summarizing chain calls its
  expert: the context is summarized first when the step is not the first one and the
  responses are too long.
\<close>

definition before_step :: "SummarizingChain \<Rightarrow> nat \<Rightarrow> chain_state \<Rightarrow> chain_state" where
  "before_step ch i st =
     (if 0 < i \<and> should_summarize ch (fst st) then summarize_context ch st else st)"

text \<open>One iteration of the loop of \<open>SummarizingChain.generate\<close>.\<close>

definition summarizing_step ::
  "(string list \<Rightarrow> string) \<Rightarrow> SummarizingChain \<Rightarrow> nat \<Rightarrow> chain_model \<Rightarrow> chain_state \<Rightarrow>
   py_error + chain_state" where
  "summarizing_step show_list ch i model st =
     (case model of
        NameOnly n \<Rightarrow> Inr st
      | Expert n generate \<Rightarrow>
          (let model_name = expert_name n i;
               context = fst (before_step ch i st);
               calls = snd (before_step ch i st);
               prompt = format_prompt show_list ch context model_name i (length (sc_models ch))
           in case generate prompt of
                Inr response \<Rightarrow>
                  Inr (add_response context response model_name, calls @ [StepCall i prompt])
              | Inl e \<Rightarrow>
                  (if sc_stop_on_error ch then Inl e
                   else Inr (add_response context
                               (''[Error in '' @ model_name @ '': '' @ error_text e @ '']'')
                               model_name,
                             calls @ [StepCall i prompt]))))"

fun summarizing_loop ::
  "(string list \<Rightarrow> string) \<Rightarrow> SummarizingChain \<Rightarrow> (nat \<times> chain_model) list \<Rightarrow> chain_state \<Rightarrow>
   py_error + chain_state" where
  "summarizing_loop show_list ch [] st = Inr st"
| "summarizing_loop show_list ch ((i, model) # rest) st =
     (case summarizing_step show_list ch i model st of
        Inl e \<Rightarrow> Inl e
      | Inr st' \<Rightarrow> summarizing_loop show_list ch rest st')"

text \<open>
  \<open>SummarizingChain.generate\<close>: the final text, with the final context and the calls
  made, or the exception that stopped the chain.
\<close>

definition summarizing_generate ::
  "(string list \<Rightarrow> string) \<Rightarrow> SummarizingChain \<Rightarrow> string \<Rightarrow> py_error + (string \<times> chain_state)" where
  "summarizing_generate show_list ch query =
     (case summarizing_loop show_list ch (enumerate 0 (sc_models ch))
             (\<lparr> cc_query = query, cc_responses = [], cc_metadata = [] \<rparr>, []) of
        Inl e \<Rightarrow> Inl e
      | Inr (context, calls) \<Rightarrow>
          Inr (if cc_responses context = [] then '''' else last (cc_responses context),
               (context, calls)))"






section \<open>Experts as the patterns see them (patterns/ensemble.py, patterns/moe.py)\<close>

text \<open>
  An expert call either answers, raises, or finishes only after the timeout that the
  caller has configured (with the result it would then have). Under
  \<open>asyncio.wait_for\<close> a late call is cancelled and counts as \<open>TimeoutError\<close>; a call
  that is awaited without a timeout delivers its late result. Time itself is not
  modelled: an expert is late or it is not.
\<close>

datatype outcome = Answer string | Raises py_error | Late "py_error + string"

text \<open>
  For each registered name the registry holds a model object. A pattern uses two things
  of it: what \<open>is_available()\<close> returns, and what \<open>generate\<close> does, which may depend
  on how often the expert has been called before.
\<close>

record expert =
  ex_available :: bool
  ex_generate :: "nat \<Rightarrow> string \<Rightarrow> outcome"

type_synonym pool = "(string \<times> expert) list"

text \<open>
  The trace of a pattern call: the \<open>generate\<close> calls on experts (name and prompt), the
  \<open>asyncio.sleep\<close> delays, the calls of the configured mixer (with the responses handed
  to it) and the calls of the meta-expert, in the order in which they happen.
\<close>

datatype event =
    Generate string string
  | Sleep real
  | MixerCall "(string \<times> string) list"
  | MetaCall string

fun is_generate_of :: "string \<Rightarrow> event \<Rightarrow> bool" where
  "is_generate_of name (Generate m p) = (m = name)"
| "is_generate_of name (Sleep d) = False"
| "is_generate_of name (MixerCall rs) = False"
| "is_generate_of name (MetaCall p) = False"

definition calls_to :: "string \<Rightarrow> event list \<Rightarrow> nat" where
  "calls_to name trace = length (filter (is_generate_of name) trace)"


fun is_mixer_call :: "event \<Rightarrow> bool" where
  "is_mixer_call (MixerCall rs) = True"
| "is_mixer_call (Generate m p) = False"
| "is_mixer_call (Sleep d) = False"
| "is_mixer_call (MetaCall p) = False"

definition pool_get :: "pool \<Rightarrow> string \<Rightarrow> py_error + expert" where
  "pool_get pool name =
     (case map_of pool name of
        None \<Rightarrow> Inl (KeyError (''Model '' @ name @ '' not found in registry''))
      | Some ex \<Rightarrow> Inr ex)"

text \<open>\<open>registry.get_available_models()\<close>.\<close>

definition get_available_models :: "pool \<Rightarrow> string list" where
  "get_available_models pool = map fst (filter (\<lambda>(name, ex). ex_available ex) pool)"

text \<open>One \<open>generate\<close> call awaited under \<open>wait_for\<close>, and one awaited without a timeout.\<close>

definition timed_result :: "outcome \<Rightarrow> py_error + string" where
  "timed_result oc = (case oc of Answer t \<Rightarrow> Inr t | Raises e \<Rightarrow> Inl e | Late r \<Rightarrow> Inl TimeoutError)"

definition untimed_result :: "outcome \<Rightarrow> py_error + string" where
  "untimed_result oc = (case oc of Answer t \<Rightarrow> Inr t | Raises e \<Rightarrow> Inl e | Late r \<Rightarrow> r)"

definition untimed_call ::
  "pool \<Rightarrow> string \<Rightarrow> string \<Rightarrow> event list \<Rightarrow> (py_error + string) \<times> event list" where
  "untimed_call pool name query trace =
     (case pool_get pool name of
        Inl e \<Rightarrow> (Inl e, trace)
      | Inr ex \<Rightarrow>
          (untimed_result (ex_generate ex (calls_to name trace) query),
           trace @ [Generate name query]))"

text \<open>The two collaborators of the patterns, by what they return or raise.\<close>

record Router =
  rt_route :: "string \<Rightarrow> string list \<Rightarrow> py_error + string option"
  rt_route_multiple :: "string \<Rightarrow> string list \<Rightarrow> int \<Rightarrow> py_error + (string \<times> real) list"

type_synonym mixer = "string \<Rightarrow> (string \<times> string) list \<Rightarrow> (string \<times> real) list option \<Rightarrow> py_error + string"

text \<open>A call of the configured mixer, recorded in the trace.\<close>

definition call_mixer ::
  "mixer \<Rightarrow> string \<Rightarrow> (string \<times> string) list \<Rightarrow> (string \<times> real) list \<Rightarrow> event list \<Rightarrow>
   (py_error + string) \<times> event list" where
  "call_mixer mix query responses weights trace =
     (mix query responses (Some weights), trace @ [MixerCall responses])"

text \<open>
  A pattern returns the bare text, or the text with a dictionary of information when the
  caller asked for it. Wall-clock times and the statistics counters of the patterns are
  not part of the model.
\<close>

datatype 'i gen_result = Plain string | WithInfo string 'i

definition result_text :: "'i gen_result \<Rightarrow> string" where
  "result_text r = (case r of Plain t \<Rightarrow> t | WithInfo t i \<Rightarrow> t)"


section \<open>Ensemble (patterns/ensemble.py)\<close>

record EnsembleConfig =
  ec_default_model :: "string option"
  ec_fallback_strategy :: string
  ec_timeout :: int
  ec_parallel_execution :: bool
  ec_max_retries :: int
  ec_retry_delay :: real

definition default_ensemble_config :: EnsembleConfig where
  "default_ensemble_config =
     \<lparr> ec_default_model = None, ec_fallback_strategy = ''default'', ec_timeout = 30,
       ec_parallel_execution = True, ec_max_retries = 3, ec_retry_delay = 1 \<rparr>"

text \<open>
  The loop of \<open>Ensemble._generate_single_response\<close>, run under the \<open>wait_for\<close> of the
  fan-out: \<open>attempt\<close> counts from 0, \<open>remaining\<close> is the number of attempts still to
  make. An attempt that raises is followed by a sleep of \<open>retry_delay * (attempt + 1)\<close>
  and the next attempt, unless it was the last one. A late attempt ends the whole call
  with the timeout.
\<close>

fun attempt_loop ::
  "expert \<Rightarrow> string \<Rightarrow> string \<Rightarrow> real \<Rightarrow> nat \<Rightarrow> nat \<Rightarrow> event list \<Rightarrow>
   (py_error + string) \<times> event list" where
  "attempt_loop ex name query delay attempt 0 trace =
     (Inl (RuntimeError (''All attempts failed for model '' @ name)), trace)"
| "attempt_loop ex name query delay attempt (Suc remaining) trace =
     (case ex_generate ex (calls_to name trace) query of
        Answer t \<Rightarrow> (Inr t, trace @ [Generate name query])
      | Late r \<Rightarrow> (Inl TimeoutError, trace @ [Generate name query])
      | Raises e \<Rightarrow>
          (if remaining = 0 then (Inl e, trace @ [Generate name query])
           else attempt_loop ex name query delay (attempt + 1) remaining
                  (trace @ [Generate name query, Sleep (delay * real (attempt + 1))])))"

definition generate_single_response ::
  "EnsembleConfig \<Rightarrow> pool \<Rightarrow> string \<Rightarrow> string \<Rightarrow> event list \<Rightarrow>
   (py_error + string) \<times> event list" where
  "generate_single_response cfg pool model_name query trace =
     (case pool_get pool model_name of
        Inl e \<Rightarrow> (Inl e, trace)
      | Inr ex \<Rightarrow>
          attempt_loop ex model_name query (ec_retry_delay cfg) 0 (nat (ec_max_retries cfg)) trace)"

text \<open>
  \<open>Ensemble._generate_responses\<close>. The branch taken for parallel execution creates one
  coroutine per selected model and then awaits them one after the other under
  \<open>wait_for\<close>; a coroutine starts running when it is awaited, so both branches make the
  same calls in the same order and collect the same responses. A model whose call ends
  in an exception or a timeout is left out.
\<close>

fun generate_responses_loop ::
  "EnsembleConfig \<Rightarrow> pool \<Rightarrow> string \<Rightarrow> (string \<times> real) list \<Rightarrow> (string \<times> string) list \<Rightarrow>
   event list \<Rightarrow> (string \<times> string) list \<times> event list" where
  "generate_responses_loop cfg pool query [] responses trace = (responses, trace)"
| "generate_responses_loop cfg pool query ((model_name, weight) # rest) responses trace =
     (case generate_single_response cfg pool model_name query trace of
        (Inr response, trace') \<Rightarrow>
          generate_responses_loop cfg pool query rest (dict_set model_name response responses) trace'
      | (Inl e, trace') \<Rightarrow> generate_responses_loop cfg pool query rest responses trace')"

definition generate_responses ::
  "EnsembleConfig \<Rightarrow> pool \<Rightarrow> string \<Rightarrow> (string \<times> real) list \<Rightarrow> event list \<Rightarrow>
   (string \<times> string) list \<times> event list" where
  "generate_responses cfg pool query selected_models trace =
     generate_responses_loop cfg pool query selected_models [] trace"

datatype routing_info =
    RoutingError string
  | NoModelsAvailable string
  | Routed "(string \<times> real) list" "(string \<times> string) list"
  | FallbackUsed "(string \<times> real) list"
  | NoSuitableModels string

definition give :: "bool \<Rightarrow> string \<Rightarrow> 'i \<Rightarrow> 'i gen_result" where
  "give include_info txt info = (if include_info then WithInfo txt info else Plain txt)"

text \<open>The models queried by the fallback strategy "all", each awaited without a timeout.\<close>

fun fallback_all_loop ::
  "pool \<Rightarrow> string \<Rightarrow> string list \<Rightarrow> (string \<times> string) list \<Rightarrow> event list \<Rightarrow>
   (string \<times> string) list \<times> event list" where
  "fallback_all_loop pool query [] responses trace = (responses, trace)"
| "fallback_all_loop pool query (model_name # rest) responses trace =
     (case untimed_call pool model_name query trace of
        (Inr response, trace') \<Rightarrow>
          fallback_all_loop pool query rest (dict_set model_name response responses) trace'
      | (Inl e, trace') \<Rightarrow> fallback_all_loop pool query rest responses trace')"

text \<open>
  \<open>Ensemble._handle_fallback\<close>. The parameter \<open>choice\<close> is \<open>random.choice\<close>. Every
  failure inside a strategy falls through to the final "no suitable models" result.
\<close>

definition handle_fallback ::
  "EnsembleConfig \<Rightarrow> pool \<Rightarrow> mixer \<Rightarrow> (string list \<Rightarrow> string) \<Rightarrow> string \<Rightarrow> string list \<Rightarrow> bool \<Rightarrow>
   event list \<Rightarrow> routing_info gen_result \<times> event list" where
  "handle_fallback cfg pool mix choice query available_models include_routing_info trace =
     (let no_suitable = (\<lambda>tr. (give include_routing_info
                                  ''No suitable models available for this query''
                                  (NoSuitableModels ''No suitable models available for this query''),
                                tr));
          single = (\<lambda>name.
                      case untimed_call pool name query trace of
                        (Inr response, trace') \<Rightarrow>
                          (give include_routing_info response (FallbackUsed [(name, 1)]), trace')
                      | (Inl e, trace') \<Rightarrow> no_suitable trace')
      in if ec_fallback_strategy cfg = ''default''
            \<and> (case ec_default_model cfg of None \<Rightarrow> False | Some m \<Rightarrow> m \<noteq> [])
         then (case ec_default_model cfg of
                 None \<Rightarrow> no_suitable trace
               | Some m \<Rightarrow> if m \<in> set available_models then single m else no_suitable trace)
         else if ec_fallback_strategy cfg = ''random'' \<and> available_models \<noteq> []
         then single (choice available_models)
         else if ec_fallback_strategy cfg = ''all'' \<and> available_models \<noteq> []
         then (case fallback_all_loop pool query (take 3 available_models) [] trace of
                 (responses, trace') \<Rightarrow>
                   if responses = [] then no_suitable trace'
                   else let weights = map (\<lambda>(model, response).
                                             (model, 1 / real (length responses))) responses
                        in case call_mixer mix query responses weights trace' of
                             (Inr final_response, trace'') \<Rightarrow>
                               (give include_routing_info final_response (FallbackUsed weights),
                                trace'')
                           | (Inl e, trace'') \<Rightarrow> no_suitable trace'')
         else no_suitable trace)"

text \<open>
  The routing step of \<open>Ensemble.generate\<close>: \<open>route\<close> for \<open>top_k == 1\<close>, with
  weight 1.0 for the model it names, \<open>route_multiple\<close> otherwise.
\<close>

definition route_query ::
  "Router \<Rightarrow> string \<Rightarrow> string list \<Rightarrow> int \<Rightarrow> py_error + (string \<times> real) list" where
  "route_query router query available_models top_k =
     (if top_k = 1
      then (case rt_route router query available_models of
              Inl e \<Rightarrow> Inl e
            | Inr None \<Rightarrow> Inr []
            | Inr (Some m) \<Rightarrow> Inr (if m = [] then [] else [(m, 1)]))
      else rt_route_multiple router query available_models top_k)"

text \<open>
  \<open>Ensemble.generate\<close>. Any exception raised inside (by the router or by the mixer)
  ends in the "Error: ..." result.
\<close>

definition ensemble_generate ::
  "EnsembleConfig \<Rightarrow> pool \<Rightarrow> Router \<Rightarrow> mixer \<Rightarrow> (string list \<Rightarrow> string) \<Rightarrow> string \<Rightarrow> int \<Rightarrow> bool \<Rightarrow>
   event list \<Rightarrow> routing_info gen_result \<times> event list" where
  "ensemble_generate cfg pool router mix choice query top_k include_routing_info trace =
     (let failed = (\<lambda>e tr. (give include_routing_info (''Error: '' @ error_text e)
                               (RoutingError (error_text e)), tr));
          available_models = get_available_models pool
      in if available_models = []
         then (give include_routing_info ''No models are currently available''
                 (NoModelsAvailable ''No models are currently available''), trace)
         else case route_query router query available_models top_k of
                Inl e \<Rightarrow> failed e trace
              | Inr selected_models \<Rightarrow>
                  if selected_models = []
                  then handle_fallback cfg pool mix choice query available_models
                         include_routing_info trace
                  else case generate_responses cfg pool query selected_models trace of
                         (responses, trace') \<Rightarrow>
                           if length responses = 1
                           then (give include_routing_info (first_value responses)
                                   (Routed selected_models responses), trace')
                           else let weights =
                                      foldl (\<lambda>d (model, weight). dict_set model weight d) []
                                        (filter (\<lambda>(model, weight). map_of responses model \<noteq> None)
                                           selected_models)
                                in case call_mixer mix query responses weights trace' of
                                     (Inr final_response, trace'') \<Rightarrow>
                                       (give include_routing_info final_response
                                          (Routed selected_models responses), trace'')
                                   | (Inl e, trace'') \<Rightarrow> failed e trace'')"


section \<open>Mixture of experts (patterns/moe.py)\<close>

record MoEConfig =
  mo_confidence_threshold :: real
  mo_max_experts :: int
  mo_parallel_execution :: bool
  mo_timeout :: int
  mo_temperature :: real
  mo_aggregation_method :: string
  mo_normalize_weights :: bool
  mo_use_meta_expert :: bool

definition default_moe_config :: MoEConfig where
  "default_moe_config =
     \<lparr> mo_confidence_threshold = 1 / 10, mo_max_experts = 5, mo_parallel_execution = True,
       mo_timeout = 30, mo_temperature = 1, mo_aggregation_method = ''weighted'',
       mo_normalize_weights = True, mo_use_meta_expert = False \<rparr>"

text \<open>
  \<open>MixtureOfExperts._select_experts\<close>: the experts at or above the threshold, with
  softmax weights or with their own scores, by descending weight, at most \<open>max_experts\<close>.
\<close>

definition select_experts ::
  "MoEConfig \<Rightarrow> (string \<times> real) list \<Rightarrow> int \<Rightarrow> real \<Rightarrow> py_error + (string \<times> real) list" where
  "select_experts cfg confidence_scores max_experts threshold =
     (let qualified_experts = filter (\<lambda>(ex, confidence). threshold \<le> confidence) confidence_scores
      in if qualified_experts = [] then Inr []
         else if mo_aggregation_method cfg = ''weighted''
         then Inr (py_take max_experts
                     (sorted_desc snd
                        (zip (map fst qualified_experts)
                             (softmax_scores (mo_temperature cfg) (map snd qualified_experts)))))
         else if mo_aggregation_method cfg = ''top_k'' \<or> mo_aggregation_method cfg = ''threshold''
         then Inr (py_take max_experts (sorted_desc snd qualified_experts))
         else Inl (ValueError (''Unknown aggregation method: '' @ mo_aggregation_method cfg)))"

text \<open>
  \<open>MixtureOfExperts._generate_single_expert_response\<close> under the \<open>wait_for\<close> of the
  fan-out: one \<open>generate\<close> call, no second attempt.
\<close>

definition generate_single_expert_response ::
  "pool \<Rightarrow> string \<Rightarrow> string \<Rightarrow> event list \<Rightarrow> (py_error + string) \<times> event list" where
  "generate_single_expert_response pool expert_id query trace =
     (case pool_get pool expert_id of
        Inl e \<Rightarrow> (Inl e, trace)
      | Inr ex \<Rightarrow>
          (timed_result (ex_generate ex (calls_to expert_id trace) query),
           trace @ [Generate expert_id query]))"

text \<open>
  \<open>MixtureOfExperts._generate_expert_responses\<close>; its two branches make the same calls
  for the reason given at the ensemble.
\<close>

fun generate_expert_responses_loop ::
  "pool \<Rightarrow> string \<Rightarrow> (string \<times> real) list \<Rightarrow> (string \<times> string) list \<Rightarrow> event list \<Rightarrow>
   (string \<times> string) list \<times> event list" where
  "generate_expert_responses_loop pool query [] responses trace = (responses, trace)"
| "generate_expert_responses_loop pool query ((expert_id, confidence) # rest) responses trace =
     (case generate_single_expert_response pool expert_id query trace of
        (Inr response, trace') \<Rightarrow>
          generate_expert_responses_loop pool query rest (dict_set expert_id response responses)
            trace'
      | (Inl e, trace') \<Rightarrow> generate_expert_responses_loop pool query rest responses trace')"

definition generate_expert_responses ::
  "pool \<Rightarrow> string \<Rightarrow> (string \<times> real) list \<Rightarrow> event list \<Rightarrow> (string \<times> string) list \<times> event list" where
  "generate_expert_responses pool query selected_experts trace =
     generate_expert_responses_loop pool query selected_experts [] trace"

text \<open>
  \<open>_apply_meta_expert\<close>: the meta-expert, awaited without a timeout, refines the mixed
  response; when it raises, the mixed response stands. The parameter \<open>fixed2\<close> is the
  float formatting \<open>:.2f\<close>.
\<close>

definition meta_prompt ::
  "(real \<Rightarrow> string) \<Rightarrow> string \<Rightarrow> string \<Rightarrow> (string \<times> string) list \<Rightarrow> (string \<times> real) list \<Rightarrow> string" where
  "meta_prompt fixed2 query mixed_response expert_responses selected_experts =
     str_join newline
       ['''',
        ''As a meta-expert, review and refine the following synthesized response based on the expert inputs.'',
        '''',
        ''Original Query: '' @ query,
        '''',
        ''Expert Responses:'',
        str_join newline
          (concat (map (\<lambda>(expert_id, confidence).
                          case map_of expert_responses expert_id of
                            None \<Rightarrow> []
                          | Some response \<Rightarrow>
                              [''Expert: '' @ expert_id @ '' (confidence: '' @ fixed2 confidence @ '')'',
                               ''Response: '' @ response,
                               ''''])
                       selected_experts)),
        '''',
        ''Synthesized Response: '' @ mixed_response,
        '''',
        ''Please provide a refined response that:'',
        ''1. Incorporates the best insights from all experts'',
        ''2. Resolves any contradictions'',
        ''3. Provides a coherent and comprehensive answer'',
        ''4. Maintains appropriate confidence levels'',
        '''',
        ''Refined Response:'',
        '''']"

definition apply_meta_expert ::
  "(real \<Rightarrow> string) \<Rightarrow> (string \<Rightarrow> py_error + string) \<Rightarrow> string \<Rightarrow> string \<Rightarrow> (string \<times> string) list \<Rightarrow>
   (string \<times> real) list \<Rightarrow> event list \<Rightarrow> string \<times> event list" where
  "apply_meta_expert fixed2 meta query mixed_response expert_responses selected_experts trace =
     (let prompt = meta_prompt fixed2 query mixed_response expert_responses selected_experts
      in (case meta prompt of
            Inr refined_response \<Rightarrow> str_strip refined_response
          | Inl e \<Rightarrow> mixed_response,
          trace @ [MetaCall prompt]))"

datatype expert_info =
    ExpertError string
  | NoExpertsAvailable string
  | NoExpertsSelected string string real
  | ExpertsUsed "(string \<times> real) list" "(string \<times> string) list" "(string \<times> real) list" bool

record MixtureOfExperts =
  moe_estimate :: "string \<Rightarrow> string list \<Rightarrow> py_error + (string \<times> real) list"
  moe_pool :: pool
  moe_mixer :: mixer
  moe_meta_expert :: "(string \<Rightarrow> py_error + string) option"
  moe_config :: MoEConfig

text \<open>
  \<open>top_k or self.config.max_experts\<close> and
  \<open>confidence_threshold or self.config.confidence_threshold\<close>: the configured value
  when the argument is absent or zero.
\<close>

definition effective_max_experts :: "MoEConfig \<Rightarrow> int option \<Rightarrow> int" where
  "effective_max_experts cfg top_k =
     (case top_k of None \<Rightarrow> mo_max_experts cfg
      | Some k \<Rightarrow> if k = 0 then mo_max_experts cfg else k)"

definition effective_threshold :: "MoEConfig \<Rightarrow> real option \<Rightarrow> real" where
  "effective_threshold cfg threshold_arg =
     (case threshold_arg of None \<Rightarrow> mo_confidence_threshold cfg
      | Some t \<Rightarrow> if t = 0 then mo_confidence_threshold cfg else t)"

text \<open>
  \<open>MixtureOfExperts.generate\<close>; \<open>threshold_arg\<close> is its argument
  \<open>confidence_threshold\<close>.
\<close>

definition moe_generate ::
  "(real \<Rightarrow> string) \<Rightarrow> MixtureOfExperts \<Rightarrow> string \<Rightarrow> int option \<Rightarrow> real option \<Rightarrow> bool \<Rightarrow>
   event list \<Rightarrow> expert_info gen_result \<times> event list" where
  "moe_generate fixed2 moe query top_k threshold_arg include_expert_info trace =
     (let cfg = moe_config moe;
          failed = (\<lambda>e tr. (give include_expert_info (''Error: '' @ error_text e)
                               (ExpertError (error_text e)), tr));
          available_models = get_available_models (moe_pool moe);
          max_experts = effective_max_experts cfg top_k;
          threshold = effective_threshold cfg threshold_arg
      in if available_models = []
         then (give include_expert_info ''No expert models are currently available''
                 (NoExpertsAvailable ''No expert models are currently available''), trace)
         else case moe_estimate moe query available_models of
                Inl e \<Rightarrow> failed e trace
              | Inr confidence_scores \<Rightarrow>
                  (case select_experts cfg confidence_scores max_experts threshold of
                     Inl e \<Rightarrow> failed e trace
                   | Inr selected_experts \<Rightarrow>
                       if selected_experts = []
                       then (give include_expert_info ''No experts were selected for this query''
                               (NoExpertsSelected ''No experts were selected for this query''
                                  query (mo_confidence_threshold cfg)), trace)
                       else case generate_expert_responses (moe_pool moe) query selected_experts
                                   trace of
                              (expert_responses, trace') \<Rightarrow>
                                (case (if length expert_responses = 1
                                       then (Inr (first_value expert_responses), trace')
                                       else let weights =
                                                  foldl (\<lambda>d (ex, confidence). dict_set ex confidence d) []
                                                    (filter (\<lambda>(ex, confidence).
                                                               map_of expert_responses ex \<noteq> None)
                                                       selected_experts);
                                                total_weight = sum_list (map snd weights);
                                                weights' =
                                                  (if mo_normalize_weights cfg \<and> weights \<noteq> []
                                                      \<and> 0 < total_weight
                                                   then map (\<lambda>(k, v). (k, v / total_weight)) weights
                                                   else weights)
                                            in call_mixer (moe_mixer moe) query expert_responses
                                                 weights' trace') of
                                   (Inl e, trace'') \<Rightarrow> failed e trace''
                                 | (Inr mixed, trace'') \<Rightarrow>
                                     (case (if mo_use_meta_expert cfg
                                            then moe_meta_expert moe else None) of
                                        None \<Rightarrow>
                                          (give include_expert_info mixed
                                             (ExpertsUsed selected_experts expert_responses
                                                confidence_scores False), trace'')
                                      | Some meta \<Rightarrow>
                                          (case apply_meta_expert fixed2 meta query mixed
                                                  expert_responses selected_experts trace'' of
                                             (final_response, trace''') \<Rightarrow>
                                               (give include_expert_info final_response
                                                  (ExpertsUsed selected_experts expert_responses
                                                     confidence_scores True), trace'''))))))"



text \<open>
  A mixture of experts over one expert that answers "raw", with a meta-expert that
  answers "refined" and the refinement pass switched on.
\<close>

definition steady_expert :: expert where
  "steady_expert = \<lparr> ex_available = True, ex_generate = (\<lambda>n prompt. Answer ''raw'') \<rparr>"

definition refining_moe :: MixtureOfExperts where
  "refining_moe =
     \<lparr> moe_estimate = (\<lambda>query available. Inr (map (\<lambda>name. (name, 1 / 2)) available)),
       moe_pool = [(''coach'', steady_expert)],
       moe_mixer = (\<lambda>query responses weights. Inr ''mixed''),
       moe_meta_expert = Some (\<lambda>prompt. Inr ''refined''),
       moe_config = default_moe_config \<lparr> mo_use_meta_expert := True \<rparr> \<rparr>"



text \<open>
  An ensemble setting over the one expert "coach": a router that always names it, and the
  mixture of experts above with the refinement pass left off.
\<close>

definition coach_pool :: pool where
  "coach_pool = [(''coach'', steady_expert)]"

definition coach_router :: Router where
  "coach_router =
     \<lparr> rt_route = (\<lambda>query available. Inr (Some ''coach'')),
       rt_route_multiple = (\<lambda>query available k. Inr [(''coach'', 1)]) \<rparr>"

definition unrefined_moe :: MixtureOfExperts where
  "unrefined_moe = refining_moe \<lparr> moe_config := default_moe_config \<rparr>"


section \<open>Orchestrator: processing a query (orchestrator.py)\<close>

text \<open>
  What a strategy hands back to \<open>process_query\<close> (the dictionary with the keys
  \<open>response\<close>, \<open>confidence\<close>, \<open>models_used\<close>, \<open>metadata\<close>, \<open>explanation\<close>), and the
  \<open>PipelineResult\<close> built from it. Wall-clock times are not part of the model.
\<close>

record strategy_result =
  sr_response :: string
  sr_confidence :: real
  sr_models_used :: "string list"
  sr_metadata :: "(string \<times> string) list"
  sr_explanation :: "string option"

record PipelineResult =
  pr_response :: string
  pr_confidence :: real
  pr_strategy_used :: PipelineStrategy
  pr_models_used :: "string list"
  pr_metadata :: "(string \<times> string) list"
  pr_explanation :: "string option"

text \<open>
  The components behind the four strategies and the enhancement step are collaborators
  of \<open>process_query\<close>: each returns a result dictionary or raises.
\<close>

record pipeline_env =
  pe_execute_ensemble :: "string \<Rightarrow> query_analysis \<Rightarrow> PipelineConfig \<Rightarrow> py_error + strategy_result"
  pe_execute_moe :: "string \<Rightarrow> query_analysis \<Rightarrow> PipelineConfig \<Rightarrow> py_error + strategy_result"
  pe_execute_chain :: "string \<Rightarrow> query_analysis \<Rightarrow> PipelineConfig \<Rightarrow> py_error + strategy_result"
  pe_execute_hybrid :: "string \<Rightarrow> query_analysis \<Rightarrow> PipelineConfig \<Rightarrow> py_error + strategy_result"
  pe_enhance_result :: "strategy_result \<Rightarrow> query_analysis \<Rightarrow> PipelineConfig \<Rightarrow> py_error + strategy_result"

text \<open>\<open>_execute_pipeline\<close>: the dispatch on the selected strategy.\<close>

definition execute_pipeline ::
  "pipeline_env \<Rightarrow> string \<Rightarrow> PipelineStrategy \<Rightarrow> query_analysis \<Rightarrow> PipelineConfig \<Rightarrow>
   py_error + strategy_result" where
  "execute_pipeline env query strat analysis config =
     (case strat of
        ENSEMBLE \<Rightarrow> pe_execute_ensemble env query analysis config
      | MOE \<Rightarrow> pe_execute_moe env query analysis config
      | CHAIN \<Rightarrow> pe_execute_chain env query analysis config
      | HYBRID \<Rightarrow> pe_execute_hybrid env query analysis config
      | AUTO \<Rightarrow> Inl (ValueError ''Unsupported strategy: PipelineStrategy.AUTO''))"

text \<open>
  The statistics of the orchestrator, without the running average of execution times.
\<close>

record pipeline_stats =
  ps_total_queries :: nat
  ps_strategy_usage :: "(PipelineStrategy \<times> nat) list"
  ps_success_rate :: real

definition initial_stats :: pipeline_stats where
  "initial_stats =
     \<lparr> ps_total_queries = 0,
       ps_strategy_usage = [(AUTO, 0), (ENSEMBLE, 0), (MOE, 0), (CHAIN, 0), (HYBRID, 0)],
       ps_success_rate = 0 \<rparr>"

definition update_stats :: "pipeline_stats \<Rightarrow> PipelineStrategy \<Rightarrow> bool \<Rightarrow> pipeline_stats" where
  "update_stats stats strat success =
     (let total_queries = ps_total_queries stats + 1
      in \<lparr> ps_total_queries = total_queries,
           ps_strategy_usage =
             map (\<lambda>(s, n). if s = strat then (s, n + 1) else (s, n)) (ps_strategy_usage stats),
           ps_success_rate =
             (if success
              then (ps_success_rate stats * real (total_queries - 1) + 1) / real total_queries
              else (ps_success_rate stats * real (total_queries - 1)) / real total_queries) \<rparr>)"

text \<open>The body of the \<open>try\<close> block up to the enhanced result.\<close>

definition run_strategy ::
  "pipeline_env \<Rightarrow> string \<Rightarrow> string option \<Rightarrow> PipelineConfig \<Rightarrow> py_error + strategy_result" where
  "run_strategy env query domain_context config =
     (let analysis = analyze_query query domain_context;
          strat = select_strategy analysis config
      in case execute_pipeline env query strat analysis config of
           Inl e \<Rightarrow> Inl e
         | Inr result \<Rightarrow> pe_enhance_result env result analysis config)"

text \<open>The error result at the end of the exception handler.\<close>

definition error_result :: "PipelineConfig \<Rightarrow> py_error \<Rightarrow> PipelineResult" where
  "error_result config e =
     \<lparr> pr_response = ''Pipeline execution failed: '' @ error_text e,
       pr_confidence = 0,
       pr_strategy_used = strategy config,
       pr_models_used = [],
       pr_metadata = [(''error'', error_text e), (''failed'', ''True'')],
       pr_explanation = None \<rparr>"

text \<open>
  The fallback configuration built in the handler, \<open>PipelineConfig(strategy=fallback)\<close>:
  every other field, the fallback strategy among them, takes its default.
\<close>

definition fallback_config :: "PipelineStrategy \<Rightarrow> PipelineConfig" where
  "fallback_config f = default_config \<lparr> strategy := f \<rparr>"

text \<open>How many nested fallbacks a configuration can still cause.\<close>

definition fallback_rank :: "PipelineConfig \<Rightarrow> nat" where
  "fallback_rank config =
     (case fallback_strategy config of
        None \<Rightarrow> 0
      | Some f \<Rightarrow> if f = strategy config then 0 else if f = ENSEMBLE then 1 else 2)"

text \<open>
  \<open>process_query\<close>, for a configuration (the caller's, or the default one when none is
  given), from the statistics before the call to the result and the statistics after it.
  The handler calls \<open>process_query\<close> again for the fallback; that call returns a result
  whatever happens, so the handler around it is never entered and its result is returned.
\<close>

function process_query_with ::
  "pipeline_env \<Rightarrow> string \<Rightarrow> string option \<Rightarrow> PipelineConfig \<Rightarrow> pipeline_stats \<Rightarrow>
   PipelineResult \<times> pipeline_stats" where
  "process_query_with env query domain_context config stats =
     (case run_strategy env query domain_context config of
        Inr enhanced \<Rightarrow>
          (\<lparr> pr_response = sr_response enhanced,
             pr_confidence = sr_confidence enhanced,
             pr_strategy_used =
               select_strategy (analyze_query query domain_context) config,
             pr_models_used = sr_models_used enhanced,
             pr_metadata = sr_metadata enhanced,
             pr_explanation = sr_explanation enhanced \<rparr>,
           update_stats stats (select_strategy (analyze_query query domain_context) config) True)
      | Inl e \<Rightarrow>
          (case fallback_strategy config of
             None \<Rightarrow> (error_result config e, update_stats stats (strategy config) False)
           | Some f \<Rightarrow>
               if f \<noteq> strategy config
               then process_query_with env query domain_context (fallback_config f)
                      (update_stats stats (strategy config) False)
               else (error_result config e, update_stats stats (strategy config) False)))"
  by pat_completeness auto
termination
  by (relation "measure (\<lambda>(env, query, domain_context, config, stats). fallback_rank config)")
     (auto simp: fallback_rank_def fallback_config_def default_config_def)

declare process_query_with.simps [simp del]

definition process_query ::
  "pipeline_env \<Rightarrow> string \<Rightarrow> string option \<Rightarrow> PipelineConfig option \<Rightarrow> pipeline_stats \<Rightarrow>
   PipelineResult \<times> pipeline_stats" where
  "process_query env query domain_context config stats =
     process_query_with env query domain_context
       (case config of None \<Rightarrow> default_config | Some c \<Rightarrow> c) stats"

text \<open>
  An environment in which every strategy raises, and a configuration that pins the
  mixture of experts and names the chain as its fallback.
\<close>

definition failing_env :: pipeline_env where
  "failing_env =
     \<lparr> pe_execute_ensemble = (\<lambda>query analysis config. Inl (RuntimeError ''ensemble down'')),
       pe_execute_moe = (\<lambda>query analysis config. Inl (RuntimeError ''moe down'')),
       pe_execute_chain = (\<lambda>query analysis config. Inl (RuntimeError ''chain down'')),
       pe_execute_hybrid = (\<lambda>query analysis config. Inl (RuntimeError ''hybrid down'')),
       pe_enhance_result = (\<lambda>result analysis config. Inr result) \<rparr>"

definition moe_then_chain_config :: PipelineConfig where
  "moe_then_chain_config = default_config \<lparr> strategy := MOE, fallback_strategy := Some CHAIN \<rparr>"


section \<open>Orchestrator: results about analysis and selection\<close>





section \<open>Registry: re-registration\<close>

lemma map_of_dict_set:
  "map_of (dict_set k v d) k' = (if k' = k then Some v else map_of d k')"
  by (induction d) auto

lemma dict_set_keys:
  "k \<in> fst ` set d \<Longrightarrow> map fst (dict_set k v d) = map fst d"
  by (induction d) force+

text \<open>
  Claim C6 fails on the code: registering "physio" a second time, with another engine,
  raises nothing and the earlier OpenAI model is gone, replaced by the new Anthropic one.
\<close>

theorem reregistration_replaces_counterexample:
  "registry_get physio_registry ''physio'' = Inr (OpenAIModel physio_config)
   \<and> add_model_default (\<lambda>e. True) physio_registry ''physio'' ''anthropic'' ''claude-3-sonnet''
       = Inr \<lparr> models = [(''physio'', AnthropicModel (physio_config
                                  \<lparr> mc_engine := ''anthropic'', mc_model_name := ''claude-3-sonnet'' \<rparr>))],
               configs = [(''physio'', physio_config
                                  \<lparr> mc_engine := ''anthropic'', mc_model_name := ''claude-3-sonnet'' \<rparr>)] \<rparr>"
  by (simp add: add_model_default_def add_model_def create_model_def physio_registry_def
      physio_config_def registry_get_def Let_def)

text \<open>
  Claim C6 as the code has it. Registering under a name that is already registered never
  fails because of the name. When the model can be built, the call succeeds, the name now
  maps to the new model and the new configuration, every other name keeps its entry and
  the order of the names is unchanged. When the factory raises (unknown engine, client
  package missing) that error is the result and no registry is produced, so the earlier
  registration stays.
\<close>

theorem add_model_replaces:
  assumes "name \<in> fst ` set (models reg)" and "name \<in> fst ` set (configs reg)"
  shows "case create_model loadable
                \<lparr> mc_name = name, mc_engine = engine, mc_model_name = model_name,
                  mc_api_key = api_key, mc_base_url = base_url, mc_temperature = temperature,
                  mc_max_tokens = max_tokens, mc_timeout = timeout, mc_extra_params = kwargs \<rparr> of
           Inl e \<Rightarrow>
             add_model loadable reg name engine model_name api_key base_url temperature
               max_tokens timeout kwargs = Inl e
         | Inr m \<Rightarrow>
             (\<exists>reg'. add_model loadable reg name engine model_name api_key base_url temperature
                        max_tokens timeout kwargs = Inr reg'
                \<and> registry_get reg' name = Inr m
                \<and> map_of (configs reg') name = Some (model_config m)
                \<and> (\<forall>other. other \<noteq> name \<longrightarrow>
                       map_of (models reg') other = map_of (models reg) other
                     \<and> map_of (configs reg') other = map_of (configs reg) other)
                \<and> map fst (models reg') = map fst (models reg)
                \<and> map fst (configs reg') = map fst (configs reg))"
  using assms
  by (auto simp: add_model_def create_model_def registry_get_def map_of_dict_set dict_set_keys
      Let_def split: sum.splits option.splits if_splits)

theorem add_model_replaces_witness:
  "''physio'' \<in> fst ` set (models physio_registry)
   \<and> ''physio'' \<in> fst ` set (configs physio_registry)
   \<and> (\<exists>reg'. add_model (\<lambda>e. True) physio_registry ''physio'' ''anthropic'' ''claude-3-sonnet''
                None None (7 / 10) 1000 30 [] = Inr reg'
             \<and> registry_get reg' ''physio''
                = Inr (AnthropicModel (physio_config \<lparr> mc_engine := ''anthropic'',
                                                      mc_model_name := ''claude-3-sonnet'' \<rparr>)))"
proof -
  have h1: "''physio'' \<in> fst ` set (models physio_registry)"
    by (simp add: physio_registry_def)
  have h2: "''physio'' \<in> fst ` set (configs physio_registry)"
    by (simp add: physio_registry_def)
  from add_model_replaces [OF h1 h2, of "\<lambda>e. True" "''anthropic''" "''claude-3-sonnet''"
      None None "7 / 10" 1000 30 "[]"]
  show ?thesis using h1 h2
    by (auto simp: create_model_def physio_config_def)
qed

section \<open>Embedding router: the softmax and what is returned\<close>














section \<open>Consensus mixer: which groups are reported\<close>





section \<open>Mixers on a single response\<close>

lemma default_mix_single:
  "default_mix query [(source, response)] weights = response"
  by (simp add: default_mix_def first_value_def Let_def split: option.splits)

lemma sorted_sources_single:
  "sorted_sources [(source, response)] weights = [(source, response)]"
  by (simp add: sorted_sources_def sorted_desc_def)

text \<open>
  Claim C2 at the concatenation mixer: every mixer is to return a single response
  unchanged, as the synthesis, weighted and consensus mixers do by an explicit early
  return. The concatenation mixer has no such return. Given the single response
  "Train more." of the source "physio" and no weights, it returns the response behind a
  header line, which is not the response itself.
\<close>

theorem concatenation_single_response_counterexample:
  "concatenation_mix (\<lambda>w. ''100.0%'') default_concatenation_mixer ''How do I get faster?''
     [(''physio'', ''Train more.'')] None
   = ''[physio]:'' @ newline @ ''Train more.''
   \<and> concatenation_mix (\<lambda>w. ''100.0%'') default_concatenation_mixer ''How do I get faster?''
     [(''physio'', ''Train more.'')] None
   \<noteq> ''Train more.''"
  by (simp add: concatenation_mix_def sorted_sources_single weights_given_def newline_def)

text \<open>
  What each of the five mixers does with exactly one response. The default, synthesis,
  weighted and consensus mixers return that response unchanged, whatever the weights; the
  synthesis mixer sends no prompt to its model and the weighted mixer does not enter a
  combination routine (its result does not depend on the method, not even on the method
  being a known one). The concatenation mixer returns the response behind its header
  line, "[source]:" or "[source (weight)]:", and a line break.
\<close>

theorem single_response_mixers:
  "default_mix query [(source, response)] weights = response
   \<and> synthesis_mix percent sm query [(source, response)] weights = (response, [])
   \<and> weighted_mix combination wm query [(source, response)] weights = Inr response
   \<and> consensus_mix cb query [(source, response)] weights = response
   \<and> concatenation_mix percent cm query [(source, response)] weights =
       (case (if cm_include_weights cm \<and> weights_given weights
              then map_of (weights_dict weights) source else None) of
          Some w \<Rightarrow> ''['' @ source @ '' ('' @ percent w @ '')]:''
        | None \<Rightarrow> ''['' @ source @ '']:'')
       @ newline @ response"
proof -
  have "synthesis_mix percent sm query [(source, response)] weights = (response, [])"
    by (simp add: synthesis_mix_def first_value_def)
  moreover have "weighted_mix combination wm query [(source, response)] weights = Inr response"
    by (simp add: weighted_mix_def first_value_def)
  moreover have "consensus_mix cb query [(source, response)] weights = response"
    by (simp add: consensus_mix_def first_value_def)
  moreover have "concatenation_mix percent cm query [(source, response)] weights =
       (case (if cm_include_weights cm \<and> weights_given weights
              then map_of (weights_dict weights) source else None) of
          Some w \<Rightarrow> ''['' @ source @ '' ('' @ percent w @ '')]:''
        | None \<Rightarrow> ''['' @ source @ '']:'')
       @ newline @ response"
    by (simp add: concatenation_mix_def sorted_sources_single)
  ultimately show ?thesis
    using default_mix_single by blast
qed

theorem single_response_mixers_witness:
  "default_mix ''q'' [(''physio'', ''Train more.'')] (Some [(''physio'', 3), (''diet'', 5)])
     = ''Train more.''
   \<and> synthesis_mix (\<lambda>w. ''100.0%'')
        \<lparr> sm_synthesis_model = (\<lambda>p. Inr ''synthesis''),
          sm_prompt_template = default_prompt_template, sm_max_input_length = None \<rparr>
        ''q'' [(''physio'', ''Train more.'')] None
     = (''Train more.'', [])
   \<and> concatenation_mix (\<lambda>w. ''100.0%'') default_concatenation_mixer ''q''
        [(''physio'', ''Train more.'')] (Some [(''physio'', 1)])
     = ''[physio (100.0%)]:'' @ newline @ ''Train more.''"
proof -
  note a = single_response_mixers [of "''q''" "''physio''" "''Train more.''"
      "Some [(''physio'', 3), (''diet'', 5)]"]
  note b = single_response_mixers [of "''q''" "''physio''" "''Train more.''" None
      "\<lambda>w. ''100.0%''"
      "\<lparr> sm_synthesis_model = (\<lambda>p. Inr ''synthesis''),
         sm_prompt_template = default_prompt_template, sm_max_input_length = None \<rparr>"]
  note c = single_response_mixers [of "''q''" "''physio''" "''Train more.''"
      "Some [(''physio'', 1)]" "\<lambda>w. ''100.0%''" _ _ _ _ default_concatenation_mixer]
  have c': "concatenation_mix (\<lambda>w. ''100.0%'') default_concatenation_mixer ''q''
        [(''physio'', ''Train more.'')] (Some [(''physio'', 1)])
     = ''[physio (100.0%)]:'' @ newline @ ''Train more.''"
    using c by (simp add: default_concatenation_mixer_def weights_given_def weights_dict_def)
  from a b c' show ?thesis by blast
qed

section \<open>Summarizing chain: what happens above the threshold\<close>








section \<open>Fan-out of the two patterns\<close>

lemma single_expert_response_is_one_attempt:
  "generate_single_expert_response pool name query trace
     = generate_single_response (cfg \<lparr> ec_max_retries := 1 \<rparr>) pool name query trace"
  by (simp add: generate_single_expert_response_def generate_single_response_def timed_result_def
      split: sum.splits outcome.splits)

lemma expert_responses_loop_is_one_attempt:
  "generate_expert_responses_loop pool query selected responses trace
     = generate_responses_loop (cfg \<lparr> ec_max_retries := 1 \<rparr>) pool query selected responses trace"
proof (induction selected arbitrary: responses trace)
  case Nil
  then show ?case by simp
next
  case (Cons s selected)
  obtain name w where s: "s = (name, w)" by (cases s)
  show ?case
    by (simp add: s single_expert_response_is_one_attempt [of pool name query trace cfg] Cons.IH
        split: prod.splits sum.splits)
qed




section \<open>Mixture of experts: nobody qualifies\<close>




section \<open>A lone surviving response\<close>

lemma attempt_loop_mixer_calls:
  "filter is_mixer_call (snd (attempt_loop ex name query delay attempt remaining trace))
     = filter is_mixer_call trace"
  by (induction ex name query delay attempt remaining trace rule: attempt_loop.induct)
     (auto split: outcome.splits)

lemma generate_responses_loop_mixer_calls:
  "filter is_mixer_call (snd (generate_responses_loop cfg pool query selected responses trace))
     = filter is_mixer_call trace"
proof (induction selected arbitrary: responses trace)
  case Nil
  then show ?case by simp
next
  case (Cons s selected)
  obtain name w where s: "s = (name, w)" by (cases s)
  obtain r trace' where g: "generate_single_response cfg pool name query trace = (r, trace')"
    by (cases "generate_single_response cfg pool name query trace")
  have "filter is_mixer_call trace' = filter is_mixer_call trace"
    using g attempt_loop_mixer_calls
    by (auto simp: generate_single_response_def split: sum.splits) (metis snd_conv)
  then show ?case
    by (cases r) (simp_all add: s g Cons.IH)
qed

lemma generate_responses_mixer_calls:
  "generate_responses cfg pool query selected trace = (responses, trace') \<Longrightarrow>
   filter is_mixer_call trace' = filter is_mixer_call trace"
  using generate_responses_loop_mixer_calls [of cfg pool query selected "[]" trace]
  by (simp add: generate_responses_def)

lemma generate_expert_responses_mixer_calls:
  "generate_expert_responses pool query selected trace = (responses, trace') \<Longrightarrow>
   filter is_mixer_call trace' = filter is_mixer_call trace"
  using generate_responses_mixer_calls [of "cfg \<lparr> ec_max_retries := 1 \<rparr>" pool query selected trace]
  by (simp add: generate_expert_responses_def generate_responses_def expert_responses_loop_is_one_attempt [of pool query selected "[]" trace cfg])

lemma ensemble_lone_survivor:
  assumes "get_available_models pool \<noteq> []"
    and "route_query router query (get_available_models pool) top_k = Inr selected"
    and "selected \<noteq> []"
    and "generate_responses cfg pool query selected trace = ([(model, response)], trace')"
  shows "ensemble_generate cfg pool router mix choice query top_k include_routing_info trace
           = (give include_routing_info response (Routed selected [(model, response)]), trace')"
    and "filter is_mixer_call trace' = filter is_mixer_call trace"
  using assms generate_responses_mixer_calls [OF assms(4)]
  by (simp_all add: ensemble_generate_def Let_def first_value_def)

lemma moe_lone_survivor:
  assumes "get_available_models (moe_pool moe) \<noteq> []"
    and "moe_estimate moe query (get_available_models (moe_pool moe)) = Inr scores"
    and "select_experts (moe_config moe) scores (effective_max_experts (moe_config moe) top_k)
           (effective_threshold (moe_config moe) threshold_arg) = Inr selected"
    and "selected \<noteq> []"
    and "generate_expert_responses (moe_pool moe) query selected trace
           = ([(ex, response)], trace')"
  shows "moe_generate fixed2 moe query top_k threshold_arg include_expert_info trace
           = (case (if mo_use_meta_expert (moe_config moe) then moe_meta_expert moe else None) of
                None \<Rightarrow>
                  (give include_expert_info response
                     (ExpertsUsed selected [(ex, response)] scores False), trace')
              | Some meta \<Rightarrow>
                  (give include_expert_info
                     (fst (apply_meta_expert fixed2 meta query response [(ex, response)]
                             selected trace'))
                     (ExpertsUsed selected [(ex, response)] scores True),
                   snd (apply_meta_expert fixed2 meta query response [(ex, response)]
                          selected trace')))"
    and "filter is_mixer_call
           (snd (moe_generate fixed2 moe query top_k threshold_arg include_expert_info trace))
           = filter is_mixer_call trace"
proof -
  show g: "moe_generate fixed2 moe query top_k threshold_arg include_expert_info trace
           = (case (if mo_use_meta_expert (moe_config moe) then moe_meta_expert moe else None) of
                None \<Rightarrow>
                  (give include_expert_info response
                     (ExpertsUsed selected [(ex, response)] scores False), trace')
              | Some meta \<Rightarrow>
                  (give include_expert_info
                     (fst (apply_meta_expert fixed2 meta query response [(ex, response)]
                             selected trace'))
                     (ExpertsUsed selected [(ex, response)] scores True),
                   snd (apply_meta_expert fixed2 meta query response [(ex, response)]
                          selected trace')))"
    using assms
    by (simp add: moe_generate_def Let_def first_value_def split: option.splits prod.splits)
  have "filter is_mixer_call trace' = filter is_mixer_call trace"
    using assms(5) by (rule generate_expert_responses_mixer_calls)
  then show "filter is_mixer_call
           (snd (moe_generate fixed2 moe query top_k threshold_arg include_expert_info trace))
           = filter is_mixer_call trace"
    by (simp add: g apply_meta_expert_def Let_def split: option.splits)
qed

lemma coach_selected:
  "select_experts cfg [(''coach'', 1 / 2)] 5 (1 / 10)
     = (if mo_aggregation_method cfg = ''weighted'' then Inr [(''coach'', 1)]
        else if mo_aggregation_method cfg = ''top_k'' \<or> mo_aggregation_method cfg = ''threshold''
        then Inr [(''coach'', 1 / 2)]
        else Inl (ValueError (''Unknown aggregation method: '' @ mo_aggregation_method cfg)))"
  by (simp add: select_experts_def softmax_scores_def list_max_def sorted_desc_def py_take_def
      Let_def)

lemma coach_fan_out:
  "generate_expert_responses coach_pool ''q'' [(''coach'', 1)] []
     = ([(''coach'', ''raw'')], [Generate ''coach'' ''q''])"
  by (simp add: generate_expert_responses_def generate_single_expert_response_def coach_pool_def
      steady_expert_def pool_get_def timed_result_def)

text \<open>
  Claim C10 fails on the code for the mixture of experts with the meta-expert pass
  enabled. One expert is selected and answers "raw"; the mixer is not invoked, but the
  lone response is handed to the meta-expert and the final text is its answer "refined",
  not the surviving response.
\<close>

theorem lone_survivor_refined_counterexample:
  "generate_expert_responses (moe_pool refining_moe) ''q'' [(''coach'', 1)] []
     = ([(''coach'', ''raw'')], [Generate ''coach'' ''q''])
   \<and> result_text (fst (moe_generate (\<lambda>c. ''1.00'') refining_moe ''q'' None None False []))
       = ''refined''
   \<and> result_text (fst (moe_generate (\<lambda>c. ''1.00'') refining_moe ''q'' None None False []))
       \<noteq> ''raw''"
proof -
  have fan: "generate_expert_responses (moe_pool refining_moe) ''q'' [(''coach'', 1)] []
     = ([(''coach'', ''raw'')], [Generate ''coach'' ''q''])"
    using coach_fan_out by (simp add: refining_moe_def coach_pool_def)
  have av: "get_available_models (moe_pool refining_moe) = [''coach'']"
    by (simp add: refining_moe_def get_available_models_def steady_expert_def)
  have sel: "select_experts (moe_config refining_moe) [(''coach'', 1 / 2)]
               (effective_max_experts (moe_config refining_moe) None)
               (effective_threshold (moe_config refining_moe) None) = Inr [(''coach'', 1)]"
    by (simp add: coach_selected refining_moe_def default_moe_config_def
        effective_max_experts_def effective_threshold_def)
  have est: "moe_estimate refining_moe ''q'' [''coach''] = Inr [(''coach'', 1 / 2)]"
    by (simp add: refining_moe_def)
  have "result_text (fst (moe_generate (\<lambda>c. ''1.00'') refining_moe ''q'' None None False []))
       = ''refined''"
    by (simp add: moe_generate_def Let_def av est sel fan first_value_def)
       (simp add: refining_moe_def apply_meta_expert_def Let_def give_def result_text_def
          str_strip_def is_space_def)
  with fan show ?thesis by simp
qed

text \<open>
  Claim C10 as the code has it. When routing or selection has chosen at least one expert
  and exactly one response survives the fan-out, neither pattern invokes its mixer. The
  ensemble returns the surviving response as the final text. The mixture of experts
  returns it as the final text when the meta-expert pass is not in force (switched off, or
  no meta-expert configured); with the pass in force the final text is what the
  meta-expert makes of the surviving response.
\<close>

theorem lone_survivor_bypasses_mixer:
  "(get_available_models pool \<noteq> []
      \<and> route_query router query (get_available_models pool) top_k = Inr selected
      \<and> selected \<noteq> []
      \<and> generate_responses cfg pool query selected trace = ([(model, response)], trace')
     \<longrightarrow> ensemble_generate cfg pool router mix choice query top_k include_info trace
           = (give include_info response (Routed selected [(model, response)]), trace')
         \<and> filter is_mixer_call trace' = filter is_mixer_call trace)
   \<and> (get_available_models (moe_pool moe) \<noteq> []
      \<and> moe_estimate moe query (get_available_models (moe_pool moe)) = Inr scores
      \<and> select_experts (moe_config moe) scores (effective_max_experts (moe_config moe) max_k)
           (effective_threshold (moe_config moe) threshold_arg) = Inr chosen
      \<and> chosen \<noteq> []
      \<and> generate_expert_responses (moe_pool moe) query chosen trace = ([(ex, response)], trace')
     \<longrightarrow> filter is_mixer_call
           (snd (moe_generate fixed2 moe query max_k threshold_arg include_info trace))
           = filter is_mixer_call trace
         \<and> moe_generate fixed2 moe query max_k threshold_arg include_info trace
           = (case (if mo_use_meta_expert (moe_config moe) then moe_meta_expert moe else None) of
                None \<Rightarrow>
                  (give include_info response
                     (ExpertsUsed chosen [(ex, response)] scores False), trace')
              | Some meta \<Rightarrow>
                  (give include_info
                     (fst (apply_meta_expert fixed2 meta query response [(ex, response)]
                             chosen trace'))
                     (ExpertsUsed chosen [(ex, response)] scores True),
                   snd (apply_meta_expert fixed2 meta query response [(ex, response)]
                          chosen trace'))))"
  using ensemble_lone_survivor [of pool router query top_k selected cfg trace model response trace']
    moe_lone_survivor [of moe query scores max_k threshold_arg chosen trace ex response trace']
  by blast

theorem lone_survivor_bypasses_mixer_witness:
  "generate_responses default_ensemble_config coach_pool ''q'' [(''coach'', 1)] []
     = ([(''coach'', ''raw'')], [Generate ''coach'' ''q''])
   \<and> ensemble_generate default_ensemble_config coach_pool coach_router
        (\<lambda>query responses weights. Inr ''mixed'') hd ''q'' 1 False []
       = (Plain ''raw'', [Generate ''coach'' ''q''])
   \<and> generate_expert_responses (moe_pool unrefined_moe) ''q'' [(''coach'', 1)] []
       = ([(''coach'', ''raw'')], [Generate ''coach'' ''q''])
   \<and> moe_generate (\<lambda>c. ''1.00'') unrefined_moe ''q'' None None False []
       = (Plain ''raw'', [Generate ''coach'' ''q''])"
proof -
  have e1: "get_available_models coach_pool \<noteq> []"
    and e1': "get_available_models coach_pool = [''coach'']"
    by (simp_all add: coach_pool_def get_available_models_def steady_expert_def)
  have e2: "route_query coach_router ''q'' (get_available_models coach_pool) 1
              = Inr [(''coach'', 1)]"
    by (simp add: route_query_def coach_router_def)
  have e3: "[(''coach'', 1 :: real)] \<noteq> []" by simp
  have e4: "generate_responses default_ensemble_config coach_pool ''q'' [(''coach'', 1)] []
              = ([(''coach'', ''raw'')], [Generate ''coach'' ''q''])"
    by (simp add: generate_responses_def generate_single_response_def coach_pool_def
        steady_expert_def pool_get_def default_ensemble_config_def eval_nat_numeral)
  have m0: "moe_pool unrefined_moe = coach_pool"
    and m0': "moe_config unrefined_moe = default_moe_config"
    by (simp_all add: unrefined_moe_def refining_moe_def coach_pool_def)
  have m1: "get_available_models (moe_pool unrefined_moe) \<noteq> []"
    by (simp add: m0 e1)
  have m2: "moe_estimate unrefined_moe ''q'' (get_available_models (moe_pool unrefined_moe))
              = Inr [(''coach'', 1 / 2)]"
    by (simp add: m0 e1') (simp add: unrefined_moe_def refining_moe_def)
  have m3: "select_experts (moe_config unrefined_moe) [(''coach'', 1 / 2)]
              (effective_max_experts (moe_config unrefined_moe) None)
              (effective_threshold (moe_config unrefined_moe) None) = Inr [(''coach'', 1)]"
    by (simp add: m0' coach_selected default_moe_config_def effective_max_experts_def
        effective_threshold_def)
  have m5: "generate_expert_responses (moe_pool unrefined_moe) ''q'' [(''coach'', 1)] []
              = ([(''coach'', ''raw'')], [Generate ''coach'' ''q''])"
    by (simp add: m0 coach_fan_out)
  note t = lone_survivor_bypasses_mixer [of coach_pool coach_router "''q''" 1
      "[(''coach'', 1)]" default_ensemble_config "[]" "''coach''" "''raw''"
      "[Generate ''coach'' ''q'']" "\<lambda>query responses weights. Inr ''mixed''" hd False
      unrefined_moe "[(''coach'', 1 / 2)]" None None "[(''coach'', 1)]" "''coach''"
      "\<lambda>c. ''1.00''"]
  from t e1 e2 e3 e4
  have r1: "ensemble_generate default_ensemble_config coach_pool coach_router
        (\<lambda>query responses weights. Inr ''mixed'') hd ''q'' 1 False []
       = (Plain ''raw'', [Generate ''coach'' ''q''])"
    by (simp add: give_def)
  from t m1 m2 m3 m5
  have r2: "moe_generate (\<lambda>c. ''1.00'') unrefined_moe ''q'' None None False []
       = (Plain ''raw'', [Generate ''coach'' ''q''])"
    by (simp add: give_def m0' default_moe_config_def)
  from e4 r1 m5 r2 show ?thesis by blast
qed

section \<open>Orchestrator: failure handling of \<open>process_query\<close>\<close>

lemma update_stats_total:
  "ps_total_queries (update_stats stats strat success) = ps_total_queries stats + 1"
  by (simp add: update_stats_def Let_def)

lemma fallback_config_rank: "fallback_rank (fallback_config f) \<le> 1"
  by (simp add: fallback_rank_def fallback_config_def default_config_def)

lemma process_query_with_total_queries:
  "ps_total_queries stats < ps_total_queries (snd (process_query_with env query domain_context config stats))
   \<and> ps_total_queries (snd (process_query_with env query domain_context config stats))
       \<le> ps_total_queries stats + 1 + fallback_rank config"
proof (induction env query domain_context config stats rule: process_query_with.induct)
  case (1 env query domain_context config stats)
  show ?case
  proof (cases "run_strategy env query domain_context config")
    case (Inr enhanced)
    then show ?thesis
      by (simp add: process_query_with.simps [of env query domain_context config stats]
          update_stats_total)
  next
    case (Inl e)
    show ?thesis
    proof (cases "fallback_strategy config")
      case None
      with Inl show ?thesis
        by (simp add: process_query_with.simps [of env query domain_context config stats]
            update_stats_total)
    next
      case (Some f)
      show ?thesis
      proof (cases "f = strategy config")
        case True
        with Inl Some show ?thesis
          by (simp add: process_query_with.simps [of env query domain_context config stats]
              update_stats_total)
      next
        case False
        have rk: "fallback_rank (fallback_config f) < fallback_rank config"
          using Some False
          by (auto simp: fallback_rank_def fallback_config_def default_config_def)
        from 1 [OF Inl Some] False
        have ih: "ps_total_queries (update_stats stats (strategy config) False)
                    < ps_total_queries (snd (process_query_with env query domain_context
                        (fallback_config f) (update_stats stats (strategy config) False)))
                  \<and> ps_total_queries (snd (process_query_with env query domain_context
                        (fallback_config f) (update_stats stats (strategy config) False)))
                    \<le> ps_total_queries (update_stats stats (strategy config) False) + 1
                        + fallback_rank (fallback_config f)"
          by simp
        have eq: "process_query_with env query domain_context config stats
                    = process_query_with env query domain_context (fallback_config f)
                        (update_stats stats (strategy config) False)"
          using Inl Some False
          by (simp add: process_query_with.simps [of env query domain_context config stats])
        show ?thesis
          using ih rk by (simp add: eq update_stats_total)
      qed
    qed
  qed
qed

lemma process_query_at_most_three_attempts:
  "ps_total_queries (snd (process_query env query domain_context config stats))
     \<le> ps_total_queries stats + 3"
proof -
  have "fallback_rank (case config of None \<Rightarrow> default_config | Some c \<Rightarrow> c) \<le> 2"
    by (simp add: fallback_rank_def split: option.splits)
  with process_query_with_total_queries
         [of stats env query domain_context "case config of None \<Rightarrow> default_config | Some c \<Rightarrow> c"]
  show ?thesis
    by (simp add: process_query_def)
qed

lemma error_result_shape:
  "pr_confidence (error_result config e) = 0
   \<and> map_of (pr_metadata (error_result config e)) ''error'' = Some (error_text e)"
  by (simp add: error_result_def)

text \<open>
  Claim C1 fails on the code in its middle part. Take a configuration that pins the
  mixture of experts and names the chain as its fallback, and let every strategy raise.
  The handler records the failure of the mixture of experts and calls \<open>process_query\<close>
  for the chain with a fresh configuration, whose own fallback is the default, the
  ensemble; when the chain raises, that inner call falls back once more, to the ensemble.
  So two fallback strategies are run, the second one never configured by the caller:
  three failures are recorded (one each for the mixture of experts, the chain and the
  ensemble), and the result that comes back is the error result of the ensemble, with
  the ensemble as the strategy used and the ensemble's error, not the error of the
  configured strategy. No exception reaches the caller, and the result does have
  confidence 0 and an \<open>error\<close> entry in its metadata.
\<close>

theorem nested_fallback_two_attempts:
  "strategy moe_then_chain_config = MOE
   \<and> fallback_strategy moe_then_chain_config = Some CHAIN
   \<and> process_query failing_env ''q'' None (Some moe_then_chain_config) initial_stats
       = (\<lparr> pr_response = ''Pipeline execution failed: ensemble down'',
             pr_confidence = 0,
             pr_strategy_used = ENSEMBLE,
             pr_models_used = [],
             pr_metadata = [(''error'', ''ensemble down''), (''failed'', ''True'')],
             pr_explanation = None \<rparr>,
          \<lparr> ps_total_queries = 3,
             ps_strategy_usage = [(AUTO, 0), (ENSEMBLE, 1), (MOE, 1), (CHAIN, 1), (HYBRID, 0)],
             ps_success_rate = 0 \<rparr>)"
proof -
  have cfg: "strategy moe_then_chain_config = MOE"
    "fallback_strategy moe_then_chain_config = Some CHAIN"
    by (simp_all add: moe_then_chain_config_def)
  have r1: "run_strategy failing_env ''q'' None moe_then_chain_config
              = Inl (RuntimeError ''moe down'')"
    by (simp add: run_strategy_def Let_def select_strategy_def cfg execute_pipeline_def
        failing_env_def)
  have r2: "run_strategy failing_env ''q'' None (fallback_config CHAIN)
              = Inl (RuntimeError ''chain down'')"
    by (simp add: run_strategy_def Let_def select_strategy_def fallback_config_def
        execute_pipeline_def failing_env_def)
  have r3: "run_strategy failing_env ''q'' None (fallback_config ENSEMBLE)
              = Inl (RuntimeError ''ensemble down'')"
    by (simp add: run_strategy_def Let_def select_strategy_def fallback_config_def
        execute_pipeline_def failing_env_def)
  have f2: "fallback_strategy (fallback_config CHAIN) = Some ENSEMBLE"
    "strategy (fallback_config CHAIN) = CHAIN"
    "fallback_strategy (fallback_config ENSEMBLE) = Some ENSEMBLE"
    "strategy (fallback_config ENSEMBLE) = ENSEMBLE"
    by (simp_all add: fallback_config_def default_config_def)
  have p3: "process_query_with failing_env ''q'' None (fallback_config ENSEMBLE) st
            = (error_result (fallback_config ENSEMBLE) (RuntimeError ''ensemble down''),
               update_stats st ENSEMBLE False)" for st
    by (subst process_query_with.simps) (simp add: r3 f2)
  have p2: "process_query_with failing_env ''q'' None (fallback_config CHAIN) st
            = (error_result (fallback_config ENSEMBLE) (RuntimeError ''ensemble down''),
               update_stats (update_stats st CHAIN False) ENSEMBLE False)" for st
    by (subst process_query_with.simps) (simp add: r2 f2 p3)
  have p1: "process_query_with failing_env ''q'' None moe_then_chain_config initial_stats
            = (error_result (fallback_config ENSEMBLE) (RuntimeError ''ensemble down''),
               update_stats (update_stats (update_stats initial_stats MOE False) CHAIN False)
                 ENSEMBLE False)"
    by (subst process_query_with.simps) (simp add: r1 cfg p2)
  have st: "update_stats (update_stats (update_stats initial_stats MOE False) CHAIN False)
              ENSEMBLE False
            = \<lparr> ps_total_queries = 3,
                ps_strategy_usage = [(AUTO, 0), (ENSEMBLE, 1), (MOE, 1), (CHAIN, 1), (HYBRID, 0)],
                ps_success_rate = 0 \<rparr>"
    by (simp add: update_stats_def initial_stats_def Let_def)
  show ?thesis
    by (simp add: cfg process_query_def p1 st error_result_def f2)
qed

end
